theory Spec2Isabelle
  imports Complex_Main "HOL-Library.AList"
begin

section \<open>Values of the prediction records\<close>

text \<open>
  The module \<^verbatim>\<open>src/utils/helpers/data_consistency.py\<close> works on plain nested
  dictionaries (\<^verbatim>\<open>Dict[str, Any]\<close>). A value is \<^verbatim>\<open>None\<close>, a number, a string, a
  list or a dictionary with string keys. A dictionary is an association list in insertion
  order; a well-formed one has pairwise distinct keys.

  Numbers are exact rationals: Python's \<^verbatim>\<open>int\<close> and \<^verbatim>\<open>float\<close> are not told apart
  (\<^verbatim>\<open>True\<close> and \<^verbatim>\<open>False\<close> behave as 1 and 0 in every operation used here), and a
  sum, product or quotient is the exact one. A string is a list of characters, read as
  code points below 256.

  The source computes with binary floating point, which the exact numbers idealise: a
  float sum, product or quotient is the exact result rounded to the nearest double (a
  relative error of at most \<^verbatim>\<open>2 ** -53\<close>), \<^verbatim>\<open>round(x, n)\<close> is the double nearest to
  the \<^verbatim>\<open>n\<close>-decimal number nearest to the double \<^verbatim>\<open>x\<close>, the conversion of an integer
  of magnitude \<^verbatim>\<open>2 ** 1024\<close> or more to a float raises \<^verbatim>\<open>OverflowError\<close>, and a float
  result beyond the double range is an infinity. The float and the exact result of a
  quotient or product can therefore fall on different sides of a rounding tie, and the
  decimal that \<^verbatim>\<open>round\<close> returns differs with them. For this reason the lemmas that
  give the stored values in exact arithmetic serve as steps only, and the theorems do
  not name a number that the source computes by multiplication or division: they bound
  it, with a margin above the bound of exact arithmetic, for arguments of magnitude at
  most \<^verbatim>\<open>10 ** 6\<close>, where the floating-point error of the source stays far below the
  margin. A theorem that says that a call returns is stated for numbers of magnitude at
  most \<^verbatim>\<open>10 ** 300\<close>, where the source raises no \<^verbatim>\<open>OverflowError\<close>.
  A decimal such as 0.3 stands for the double nearest to it. The records evaluated in
  the examples come back from the source with the same decimals.

  The source changes its arguments in place and returns them; the model returns the
  changed value. The inputs are trees, as decoded JSON is: no dictionary or list is
  reachable along two paths, so a change in one place is seen in no other. The logger
  is a side channel that changes no value and is left out.
\<close>

datatype pyval =
    PNone
  | PNum rat
  | PStr string
  | PList "pyval list"
  | PDict "(string \<times> pyval) list"

type_synonym pydict = "(string \<times> pyval) list"

datatype error = TypeError | AttributeError | KeyError | IndexError | ZeroDivisionError

text \<open>A raised exception ends the call: the rest of the computation is skipped.\<close>

definition bind_res :: "error + 'a \<Rightarrow> ('a \<Rightarrow> error + 'b) \<Rightarrow> error + 'b" where
  "bind_res m f = (case m of Inl e \<Rightarrow> Inl e | Inr x \<Rightarrow> f x)"

subsection \<open>Python's operators on these values\<close>

text \<open>\<^verbatim>\<open>d.get(k, default)\<close> on a dictionary.\<close>

definition py_get :: "pydict \<Rightarrow> string \<Rightarrow> pyval \<Rightarrow> pyval" where
  "py_get d k dflt = (case map_of d k of None \<Rightarrow> dflt | Some v \<Rightarrow> v)"

text \<open>\<^verbatim>\<open>v.get(k, default)\<close> on any value: only a dictionary has the method.\<close>

definition py_get_attr :: "pyval \<Rightarrow> string \<Rightarrow> pyval \<Rightarrow> error + pyval" where
  "py_get_attr v k dflt = (case v of PDict d \<Rightarrow> Inr (py_get d k dflt) | _ \<Rightarrow> Inl AttributeError)"

text \<open>
  \<^verbatim>\<open>==\<close> never raises. Lists are compared element by element, dictionaries without
  regard to the order of their items.
\<close>

fun py_eq :: "pyval \<Rightarrow> pyval \<Rightarrow> bool"
  and py_eq_list :: "pyval list \<Rightarrow> pyval list \<Rightarrow> bool"
  and py_eq_items :: "(string \<times> pyval) list \<Rightarrow> (string \<times> pyval) list \<Rightarrow> bool"
where
  "py_eq PNone PNone = True"
| "py_eq (PNum x) (PNum y) = (x = y)"
| "py_eq (PStr s) (PStr t) = (s = t)"
| "py_eq (PList xs) (PList ys) = py_eq_list xs ys"
| "py_eq (PDict d) (PDict e) = (length d = length e \<and> py_eq_items d e)"
| "py_eq _ _ = False"
| "py_eq_list [] [] = True"
| "py_eq_list (x # xs) (y # ys) = (py_eq x y \<and> py_eq_list xs ys)"
| "py_eq_list _ _ = False"
| "py_eq_items [] e = True"
| "py_eq_items ((k, v) # d) e =
     ((case map_of e k of None \<Rightarrow> False | Some w \<Rightarrow> py_eq v w) \<and> py_eq_items d e)"

text \<open>Strings are ordered lexicographically by code point.\<close>

fun str_less :: "string \<Rightarrow> string \<Rightarrow> bool" where
  "str_less [] [] = False"
| "str_less [] (d # t) = True"
| "str_less (c # s) [] = False"
| "str_less (c # s) (d # t) =
     (if (of_char c :: nat) < of_char d then True
      else if (of_char d :: nat) < of_char c then False
      else str_less s t)"

text \<open>
  \<^verbatim>\<open>a < b\<close>: numbers with numbers, strings with strings, lists with lists (at the first
  pair of unequal elements, else by length); every other pairing raises TypeError.
\<close>

fun py_less :: "pyval \<Rightarrow> pyval \<Rightarrow> error + bool"
  and py_less_list :: "pyval list \<Rightarrow> pyval list \<Rightarrow> error + bool"
where
  "py_less (PNum x) (PNum y) = Inr (x < y)"
| "py_less (PStr s) (PStr t) = Inr (str_less s t)"
| "py_less (PList xs) (PList ys) = py_less_list xs ys"
| "py_less _ _ = Inl TypeError"
| "py_less_list [] [] = Inr False"
| "py_less_list [] (y # ys) = Inr True"
| "py_less_list (x # xs) [] = Inr False"
| "py_less_list (x # xs) (y # ys) = (if py_eq x y then py_less_list xs ys else py_less x y)"

text \<open>\<^verbatim>\<open>a > b\<close> is \<^verbatim>\<open>b < a\<close> on these values.\<close>

definition py_greater :: "pyval \<Rightarrow> pyval \<Rightarrow> error + bool" where
  "py_greater a b = py_less b a"

text \<open>
  \<^verbatim>\<open>max(a, b)\<close> keeps \<^verbatim>\<open>a\<close> unless \<^verbatim>\<open>b > a\<close>; \<^verbatim>\<open>min(a, b)\<close> keeps \<^verbatim>\<open>a\<close> unless
  \<^verbatim>\<open>b < a\<close>.
\<close>

definition py_max :: "pyval \<Rightarrow> pyval \<Rightarrow> error + pyval" where
  "py_max a b = bind_res (py_greater b a) (\<lambda>c. Inr (if c then b else a))"

definition py_min :: "pyval \<Rightarrow> pyval \<Rightarrow> error + pyval" where
  "py_min a b = bind_res (py_less b a) (\<lambda>c. Inr (if c then b else a))"

text \<open>\<^verbatim>\<open>a + b\<close>: addition of numbers, concatenation of two strings or two lists.\<close>

fun py_add :: "pyval \<Rightarrow> pyval \<Rightarrow> error + pyval" where
  "py_add (PNum x) (PNum y) = Inr (PNum (x + y))"
| "py_add (PStr s) (PStr t) = Inr (PStr (s @ t))"
| "py_add (PList xs) (PList ys) = Inr (PList (xs @ ys))"
| "py_add _ _ = Inl TypeError"

text \<open>\<^verbatim>\<open>a * n\<close> for an integer literal \<^verbatim>\<open>n\<close>: a string or a list is repeated.\<close>

fun py_mul_int :: "pyval \<Rightarrow> nat \<Rightarrow> error + pyval" where
  "py_mul_int (PNum x) n = Inr (PNum (x * of_nat n))"
| "py_mul_int (PStr s) n = Inr (PStr (concat (replicate n s)))"
| "py_mul_int (PList xs) n = Inr (PList (concat (replicate n xs)))"
| "py_mul_int _ n = Inl TypeError"

text \<open>
  \<^verbatim>\<open>a * y\<close> for a float \<^verbatim>\<open>y\<close>: only a number can be multiplied by a float. The
  product is the exact one; the source rounds it to a double.
\<close>

fun py_mul_float :: "pyval \<Rightarrow> rat \<Rightarrow> error + pyval" where
  "py_mul_float (PNum x) y = Inr (PNum (x * y))"
| "py_mul_float _ y = Inl TypeError"

text \<open>
  \<^verbatim>\<open>a / b\<close>: true division. The quotient is the exact one; the source rounds it to a
  double, and raises \<^verbatim>\<open>OverflowError\<close> for an integer operand too large for a float.
\<close>

fun py_truediv :: "pyval \<Rightarrow> pyval \<Rightarrow> error + rat" where
  "py_truediv (PNum x) (PNum y) = (if y = 0 then Inl ZeroDivisionError else Inr (x / y))"
| "py_truediv _ _ = Inl TypeError"

text \<open>
  \<^verbatim>\<open>round(x, n)\<close>: to \<^verbatim>\<open>n\<close> decimals, a tie going to the even neighbour. The source
  rounds the double it has computed, which may lie on the other side of a tie than the
  exact number rounded here.
\<close>

definition round_half_even :: "rat \<Rightarrow> int" where
  "round_half_even y =
     (let f = \<lfloor>y\<rfloor>; d = y - of_int f
      in if d < 1 / 2 then f
         else if 1 / 2 < d then f + 1
         else if even f then f else f + 1)"

definition round_to :: "nat \<Rightarrow> rat \<Rightarrow> rat" where
  "round_to n x = of_int (round_half_even (x * 10 ^ n)) / 10 ^ n"

fun py_round :: "pyval \<Rightarrow> nat \<Rightarrow> error + pyval" where
  "py_round (PNum x) n = Inr (PNum (round_to n x))"
| "py_round _ n = Inl TypeError"

text \<open>\<^verbatim>\<open>d.update({k1: v1, ...})\<close>: the items are stored in the order they are written.\<close>

definition py_update :: "pydict \<Rightarrow> (string \<times> pyval) list \<Rightarrow> pydict" where
  "py_update d kvs = fold (\<lambda>(k, v). AList.update k v) kvs d"

subsection \<open>Batting\<close>

text \<open>
  \<^verbatim>\<open>DataConsistency.ensure_batting_consistency\<close> (the spec's \<^verbatim>\<open>reconcile_batting\<close>),
  in the three numbered steps of the source. Each step returns the local variables it
  may reassign.

  Step 1, \<^verbatim>\<open>if balls > 0: strike_rate = (runs / balls) * 100\<close>,
  \<^verbatim>\<open>elif strike_rate > 0: balls = (runs / strike_rate) * 100\<close>; it returns
  \<^verbatim>\<open>(balls, strike_rate)\<close>.
\<close>

definition batting_strike_rate :: "pyval \<Rightarrow> pyval \<Rightarrow> pyval \<Rightarrow> error + pyval \<times> pyval" where
  "batting_strike_rate runs balls strike_rate =
     bind_res (py_greater balls (PNum 0)) (\<lambda>balls_pos.
       if balls_pos then
         bind_res (py_truediv runs balls) (\<lambda>q. Inr (balls, PNum (q * 100)))
       else
         bind_res (py_greater strike_rate (PNum 0)) (\<lambda>rate_pos.
           if rate_pos then
             bind_res (py_truediv runs strike_rate) (\<lambda>q. Inr (PNum (q * 100), strike_rate))
           else Inr (balls, strike_rate)))"

text \<open>
  Step 2, the boundary runs; it returns \<^verbatim>\<open>(fours, sixes)\<close>.
\<close>

definition batting_boundaries :: "pyval \<Rightarrow> pyval \<Rightarrow> pyval \<Rightarrow> error + pyval \<times> pyval" where
  "batting_boundaries runs fours sixes =
     bind_res (py_mul_int fours 4) (\<lambda>f4.
     bind_res (py_mul_int sixes 6) (\<lambda>s6.
     bind_res (py_add f4 s6) (\<lambda>boundary_runs.
     bind_res (py_greater boundary_runs runs) (\<lambda>over.
       if over then
         bind_res (py_max (PNum 1) boundary_runs) (\<lambda>m.
         bind_res (py_truediv runs m) (\<lambda>scale_factor.
         bind_res (py_mul_float fours scale_factor) (\<lambda>fours.
         bind_res (py_mul_float sixes scale_factor) (\<lambda>sixes.
           Inr (fours, sixes)))))
       else Inr (fours, sixes)))))"

text \<open>
  Step 3, the floors, and the update of the record with the rounded values.
\<close>

definition batting_store ::
  "pydict \<Rightarrow> pyval \<Rightarrow> pyval \<Rightarrow> pyval \<Rightarrow> pyval \<Rightarrow> pyval \<Rightarrow> error + pydict" where
  "batting_store batting_data runs balls strike_rate fours sixes =
     bind_res (py_max (PNum 0) runs) (\<lambda>runs.
     bind_res (py_max (PNum 1) balls) (\<lambda>balls.
     bind_res (py_max (PNum 0) strike_rate) (\<lambda>strike_rate.
     bind_res (py_max (PNum 0) fours) (\<lambda>fours.
     bind_res (py_max (PNum 0) sixes) (\<lambda>sixes.
     bind_res (py_round runs 1) (\<lambda>r_runs.
     bind_res (py_round balls 1) (\<lambda>r_balls.
     bind_res (py_round strike_rate 1) (\<lambda>r_rate.
     bind_res (py_round fours 1) (\<lambda>r_fours.
     bind_res (py_round sixes 1) (\<lambda>r_sixes.
       Inr (py_update batting_data
         [(''expected_runs'', r_runs),
          (''expected_balls'', r_balls),
          (''expected_strike_rate'', r_rate),
          (''expected_fours'', r_fours),
          (''expected_sixes'', r_sixes)])))))))))))"

definition ensure_batting_consistency :: "pydict \<Rightarrow> error + pydict" where
  "ensure_batting_consistency batting_data =
    (let runs = py_get batting_data ''expected_runs'' (PNum 0);
         balls = py_get batting_data ''expected_balls'' (PNum 0);
         strike_rate = py_get batting_data ''expected_strike_rate'' (PNum 0);
         fours = py_get batting_data ''expected_fours'' (PNum 0);
         sixes = py_get batting_data ''expected_sixes'' (PNum 0)
     in
     bind_res (batting_strike_rate runs balls strike_rate) (\<lambda>(balls, strike_rate).
     bind_res (batting_boundaries runs fours sixes) (\<lambda>(fours, sixes).
       batting_store batting_data runs balls strike_rate fours sixes)))"

subsection \<open>Bowling\<close>

text \<open>
  \<^verbatim>\<open>str.upper()\<close> yields code points: below 256 the letters \<^verbatim>\<open>a\<close> to \<^verbatim>\<open>z\<close> and the
  accented small letters move down by 32, the micro sign becomes U+039C, the sharp s
  becomes \<^verbatim>\<open>SS\<close> and the y with diaeresis becomes U+0178.
\<close>

definition upper_points :: "char \<Rightarrow> nat list" where
  "upper_points c =
     (let n = of_char c
      in if 97 \<le> n \<and> n \<le> 122 then [n - 32]
         else if n = 181 then [924]
         else if n = 223 then [83, 83]
         else if 224 \<le> n \<and> n \<le> 254 \<and> n \<noteq> 247 then [n - 32]
         else if n = 255 then [376]
         else [n])"

definition py_upper :: "string \<Rightarrow> nat list" where
  "py_upper s = concat (map upper_points s)"

definition code_points :: "string \<Rightarrow> nat list" where
  "code_points s = map of_char s"

text \<open>
  The product of two numbers. The source multiplies \<^verbatim>\<open>economy * overs\<close> only after
  both were compared with 0, which no other value survives.
\<close>

fun py_mul_num :: "pyval \<Rightarrow> pyval \<Rightarrow> error + pyval" where
  "py_mul_num (PNum x) (PNum y) = Inr (PNum (x * y))"
| "py_mul_num _ _ = Inl TypeError"

text \<open>\<^verbatim>\<open>a > 0 and b > 0\<close>: the second comparison is made only when the first holds.\<close>

definition both_positive :: "pyval \<Rightarrow> pyval \<Rightarrow> error + bool" where
  "both_positive a b =
     bind_res (py_greater a (PNum 0)) (\<lambda>a_pos.
       if a_pos then py_greater b (PNum 0) else Inr False)"

text \<open>
  \<^verbatim>\<open>DataConsistency.ensure_bowling_consistency\<close> (the spec's \<^verbatim>\<open>reconcile_bowling\<close>),
  in the three numbered steps of the source.

  Step 1, \<^verbatim>\<open>if overs > 0 and economy > 0: runs_conceded = economy * overs\<close>,
  \<^verbatim>\<open>elif runs_conceded > 0 and overs > 0: economy = runs_conceded / overs\<close>; it returns
  \<^verbatim>\<open>(economy, runs_conceded)\<close>.
\<close>

definition bowling_runs_conceded ::
  "pyval \<Rightarrow> pyval \<Rightarrow> pyval \<Rightarrow> error + pyval \<times> pyval" where
  "bowling_runs_conceded overs economy runs_conceded =
     bind_res (both_positive overs economy) (\<lambda>c1.
       if c1 then
         bind_res (py_mul_num economy overs) (\<lambda>p. Inr (economy, p))
       else
         bind_res (both_positive runs_conceded overs) (\<lambda>c2.
           if c2 then
             bind_res (py_truediv runs_conceded overs) (\<lambda>q. Inr (PNum q, runs_conceded))
           else Inr (economy, runs_conceded)))"

text \<open>Step 2, the cap of the format on the overs.\<close>

definition bowling_format_cap :: "pyval \<Rightarrow> string \<Rightarrow> error + pyval" where
  "bowling_format_cap overs format_type =
     (if py_upper format_type = code_points ''T20I'' then py_min overs (PNum 4)
      else if py_upper format_type = code_points ''ODI'' then py_min overs (PNum 10)
      else Inr overs)"

text \<open>Step 3, the floors, and the update of the record with the rounded values.\<close>

definition bowling_store ::
  "pydict \<Rightarrow> pyval \<Rightarrow> pyval \<Rightarrow> pyval \<Rightarrow> pyval \<Rightarrow> error + pydict" where
  "bowling_store bowling_data overs economy wickets runs_conceded =
     bind_res (py_max (PNum 0) overs) (\<lambda>overs.
     bind_res (py_max (PNum 0) economy) (\<lambda>economy.
     bind_res (py_max (PNum 0) wickets) (\<lambda>wickets.
     bind_res (py_max (PNum 0) runs_conceded) (\<lambda>runs_conceded.
     bind_res (py_round overs 1) (\<lambda>r_overs.
     bind_res (py_round economy 1) (\<lambda>r_economy.
     bind_res (py_round wickets 1) (\<lambda>r_wickets.
     bind_res (py_round runs_conceded 1) (\<lambda>r_conceded.
       Inr (py_update bowling_data
         [(''expected_overs'', r_overs),
          (''expected_economy'', r_economy),
          (''expected_wickets'', r_wickets),
          (''expected_runs_conceded'', r_conceded)])))))))))"

definition ensure_bowling_consistency :: "pydict \<Rightarrow> string \<Rightarrow> error + pydict" where
  "ensure_bowling_consistency bowling_data format_type =
    (let overs = py_get bowling_data ''expected_overs'' (PNum 0);
         economy = py_get bowling_data ''expected_economy'' (PNum 0);
         wickets = py_get bowling_data ''expected_wickets'' (PNum 0);
         runs_conceded = py_get bowling_data ''expected_runs_conceded'' (PNum 0)
     in
     bind_res (bowling_runs_conceded overs economy runs_conceded)
       (\<lambda>(economy, runs_conceded).
     bind_res (bowling_format_cap overs format_type) (\<lambda>overs.
       bowling_store bowling_data overs economy wickets runs_conceded)))"

subsection \<open>Player role\<close>

text \<open>
  \<^verbatim>\<open>str.lower()\<close>: below 256 the letters \<^verbatim>\<open>A\<close> to \<^verbatim>\<open>Z\<close> and the accented capital
  letters move up by 32. Only a string has the method.
\<close>

definition lower_char :: "char \<Rightarrow> char" where
  "lower_char c =
     (let n = (of_char c :: nat)
      in if (65 \<le> n \<and> n \<le> 90) \<or> (192 \<le> n \<and> n \<le> 222 \<and> n \<noteq> 215)
         then char_of (n + 32) else c)"

definition py_lower :: "pyval \<Rightarrow> error + string" where
  "py_lower v = (case v of PStr s \<Rightarrow> Inr (map lower_char s) | _ \<Rightarrow> Inl AttributeError)"

text \<open>\<^verbatim>\<open>p in s\<close> for two strings: \<^verbatim>\<open>p\<close> occurs in \<^verbatim>\<open>s\<close> as a contiguous piece.\<close>

fun starts_with :: "string \<Rightarrow> string \<Rightarrow> bool" where
  "starts_with [] s = True"
| "starts_with (c # p) [] = False"
| "starts_with (c # p) (d # s) = (c = d \<and> starts_with p s)"

fun str_contains :: "string \<Rightarrow> string \<Rightarrow> bool" where
  "str_contains [] p = (p = [])"
| "str_contains (c # s) p = (starts_with p (c # s) \<or> str_contains s p)"


text \<open>\<^verbatim>\<open>v[k]\<close> and \<^verbatim>\<open>v[k] = w\<close> for a string \<^verbatim>\<open>k\<close>: only a dictionary takes string keys.\<close>

definition py_getitem :: "pyval \<Rightarrow> string \<Rightarrow> error + pyval" where
  "py_getitem v k =
     (case v of
        PDict d \<Rightarrow> (case map_of d k of None \<Rightarrow> Inl KeyError | Some w \<Rightarrow> Inr w)
      | _ \<Rightarrow> Inl TypeError)"

definition py_setitem :: "pyval \<Rightarrow> string \<Rightarrow> pyval \<Rightarrow> error + pyval" where
  "py_setitem v k w =
     (case v of PDict d \<Rightarrow> Inr (PDict (AList.update k w d)) | _ \<Rightarrow> Inl TypeError)"

text \<open>
  One block of the role policy:
  \<^verbatim>\<open>if sub in prediction: v = prediction[sub].get(field, 0); if test(v): prediction[sub][field] = fix(v)\<close>.
\<close>

definition adjust_field ::
  "pydict \<Rightarrow> string \<Rightarrow> string \<Rightarrow> (pyval \<Rightarrow> error + bool) \<Rightarrow> (pyval \<Rightarrow> error + pyval)
     \<Rightarrow> error + pydict" where
  "adjust_field prediction sub field test fix =
     (case map_of prediction sub of
        None \<Rightarrow> Inr prediction
      | Some record \<Rightarrow>
          bind_res (py_get_attr record field (PNum 0)) (\<lambda>v.
          bind_res (test v) (\<lambda>c.
            if c then
              bind_res (fix v) (\<lambda>w.
              bind_res (py_setitem record field w) (\<lambda>record'.
                Inr (AList.update sub record' prediction)))
            else Inr prediction)))"

text \<open>
  \<^verbatim>\<open>DataConsistency.ensure_player_role_consistency\<close> (the spec's \<^verbatim>\<open>adjust_for_role\<close>).
\<close>

definition ensure_player_role_consistency :: "pydict \<Rightarrow> pydict \<Rightarrow> error + pydict" where
  "ensure_player_role_consistency player_data prediction =
     bind_res (py_get_attr (py_get player_data ''personalInformation'' (PDict []))
                 ''role'' (PStr [])) (\<lambda>role_value.
     bind_res (py_lower role_value) (\<lambda>role.
       if str_contains role ''batsman'' then
         bind_res (adjust_field prediction ''batting'' ''expected_runs''
                     (\<lambda>runs. py_less runs (PNum 20)) (\<lambda>runs. py_max runs (PNum 20)))
           (\<lambda>prediction.
              adjust_field prediction ''bowling'' ''expected_wickets''
                (\<lambda>wickets. py_greater wickets (PNum (1 / 2)))
                (\<lambda>wickets. py_min wickets (PNum (1 / 2))))
       else if str_contains role ''bowler'' then
         bind_res (adjust_field prediction ''batting'' ''expected_runs''
                     (\<lambda>runs. py_greater runs (PNum 15)) (\<lambda>runs. py_min runs (PNum 15)))
           (\<lambda>prediction.
              adjust_field prediction ''bowling'' ''expected_wickets''
                (\<lambda>wickets. py_less wickets (PNum 1)) (\<lambda>wickets. py_max wickets (PNum 1)))
       else if str_contains role ''all-rounder'' \<or> str_contains role ''all rounder'' then
         bind_res (adjust_field prediction ''batting'' ''expected_runs''
                     (\<lambda>runs. py_less runs (PNum 15)) (\<lambda>runs. py_max runs (PNum 15)))
           (\<lambda>prediction.
              adjust_field prediction ''bowling'' ''expected_wickets''
                (\<lambda>wickets. py_less wickets (PNum (1 / 2)))
                (\<lambda>wickets. py_max wickets (PNum (1 / 2))))
       else Inr prediction))"

subsection \<open>Fantasy team\<close>



definition py_truthy :: "pyval \<Rightarrow> bool" where
  "py_truthy v =
     (case v of
        PNone \<Rightarrow> False
      | PNum x \<Rightarrow> x \<noteq> 0
      | PStr s \<Rightarrow> s \<noteq> []
      | PList xs \<Rightarrow> xs \<noteq> []
      | PDict d \<Rightarrow> d \<noteq> [])"








subsection \<open>Match prediction\<close>

text \<open>\<^verbatim>\<open>v.keys()\<close> and \<^verbatim>\<open>v.items()\<close>: only a dictionary has the methods.\<close>

definition py_keys :: "pyval \<Rightarrow> error + string list" where
  "py_keys v = (case v of PDict d \<Rightarrow> Inr (map fst d) | _ \<Rightarrow> Inl AttributeError)"

definition py_items :: "pyval \<Rightarrow> error + (string \<times> pyval) list" where
  "py_items v = (case v of PDict d \<Rightarrow> Inr d | _ \<Rightarrow> Inl AttributeError)"

text \<open>
  The first block of \<^verbatim>\<open>ensure_match_prediction_consistency\<close>, for two teams: the
  probabilities are normalised, rounded and stored in \<^verbatim>\<open>team_probs\<close>, which is the
  dictionary held under \<^verbatim>\<open>match_prediction['prediction']['team_probabilities']\<close>, and the
  winner's probability is stored under \<^verbatim>\<open>match_prediction['prediction']\<close>.
\<close>

definition normalize_two ::
  "pydict \<Rightarrow> pyval \<Rightarrow> string \<Rightarrow> string \<Rightarrow> error + pydict" where
  "normalize_two match_prediction team_probs team1 team2 =
     bind_res (py_get_attr team_probs team1 (PNum (1 / 2))) (\<lambda>prob1.
     bind_res (py_get_attr team_probs team2 (PNum (1 / 2))) (\<lambda>prob2.
     bind_res (py_add prob1 prob2) (\<lambda>total_prob.
     bind_res (py_greater total_prob (PNum 0)) (\<lambda>positive.
     bind_res
       (if positive then
          bind_res (py_truediv prob1 total_prob) (\<lambda>q1.
          bind_res (py_truediv prob2 total_prob) (\<lambda>q2.
            Inr (PNum q1, PNum q2)))
        else Inr (PNum (1 / 2), PNum (1 / 2)))
       (\<lambda>(prob1, prob2).
     bind_res (py_round prob1 3) (\<lambda>r1.
     bind_res (py_setitem team_probs team1 r1) (\<lambda>team_probs.
     bind_res (py_round prob2 3) (\<lambda>r2.
     bind_res (py_setitem team_probs team2 r2) (\<lambda>team_probs.
     bind_res (py_max prob1 prob2) (\<lambda>best.
     bind_res (py_round best 3) (\<lambda>win.
     bind_res (py_getitem (PDict match_prediction) ''prediction'') (\<lambda>prediction.
     bind_res (py_setitem prediction ''team_probabilities'' team_probs) (\<lambda>prediction.
     bind_res (py_setitem prediction ''win_probability'' win) (\<lambda>prediction.
       Inr (AList.update ''prediction'' prediction match_prediction)))))))))))))))"

text \<open>
  The second block, for one score: \<^verbatim>\<open>max(120, min(score, 220))\<close> under T20I,
  \<^verbatim>\<open>max(200, min(score, 350))\<close> under ODI, nothing otherwise.
\<close>

definition clamp_score :: "pyval \<Rightarrow> string \<Rightarrow> error + pyval" where
  "clamp_score score format_type =
     (if py_upper format_type = code_points ''T20I'' then
        bind_res (py_min score (PNum 220)) (\<lambda>m. py_max (PNum 120) m)
      else if py_upper format_type = code_points ''ODI'' then
        bind_res (py_min score (PNum 350)) (\<lambda>m. py_max (PNum 200) m)
      else Inr score)"

fun clamp_scores :: "(string \<times> pyval) list \<Rightarrow> string \<Rightarrow> error + (string \<times> pyval) list" where
  "clamp_scores [] format_type = Inr []"
| "clamp_scores ((team, score) # rest) format_type =
     bind_res (clamp_score score format_type) (\<lambda>score'.
     bind_res (clamp_scores rest format_type) (\<lambda>rest'.
       Inr ((team, score') # rest')))"

text \<open>
  \<^verbatim>\<open>DataConsistency.ensure_match_prediction_consistency\<close> (the spec's
  \<^verbatim>\<open>reconcile_match_prediction\<close>), in the two blocks of the source: the win
  probabilities, then the expected scores.
\<close>

definition match_probabilities :: "pydict \<Rightarrow> error + pydict" where
  "match_probabilities match_prediction =
     bind_res (py_get_attr (py_get match_prediction ''prediction'' (PDict []))
                 ''team_probabilities'' (PDict [])) (\<lambda>team_probs.
       if py_truthy team_probs then
         bind_res (py_keys team_probs) (\<lambda>teams.
           case teams of
             [team1, team2] \<Rightarrow> normalize_two match_prediction team_probs team1 team2
           | _ \<Rightarrow> Inr match_prediction)
       else Inr match_prediction)"

definition match_scores :: "pydict \<Rightarrow> string \<Rightarrow> error + pydict" where
  "match_scores match_prediction format_type =
    (let expected_scores = py_get match_prediction ''expected_scores'' (PDict []) in
     if py_truthy expected_scores then
       bind_res (py_items expected_scores) (\<lambda>items.
       bind_res (clamp_scores items format_type) (\<lambda>items'.
         Inr (AList.update ''expected_scores'' (PDict items') match_prediction)))
     else Inr match_prediction)"

definition ensure_match_prediction_consistency :: "pydict \<Rightarrow> string \<Rightarrow> error + pydict" where
  "ensure_match_prediction_consistency match_prediction format_type =
     bind_res (match_probabilities match_prediction) (\<lambda>match_prediction.
       match_scores match_prediction format_type)"

subsection \<open>Well-typed input\<close>

text \<open>
  The shapes of input on which the functions are shown to return: every item of a
  dictionary holds a number.
\<close>

definition numeric_values :: "(string \<times> pyval) list \<Rightarrow> bool" where
  "numeric_values items = list_all (\<lambda>(k, v). case v of PNum x \<Rightarrow> True | _ \<Rightarrow> False) items"



text \<open>
  A sub-record of a player prediction is absent, or a dictionary whose field holds a
  number (or lacks the field).
\<close>

definition numeric_field :: "pydict \<Rightarrow> string \<Rightarrow> string \<Rightarrow> bool" where
  "numeric_field prediction sub field =
     (case map_of prediction sub of
        None \<Rightarrow> True
      | Some (PDict record) \<Rightarrow>
          (case py_get record field (PNum 0) of PNum x \<Rightarrow> True | _ \<Rightarrow> False)
      | Some _ \<Rightarrow> False)"









subsection \<open>The role policy as the specification words it\<close>

text \<open>
  Section 4.3 of the specification: the role is classified by case-insensitive substring
  match, the first of batsman, bowler, all-rounder (or all rounder) winning; each class
  has a floor (raise to at least) or a cap (lower to at most) for
  \<^verbatim>\<open>batting.expected_runs\<close> and \<^verbatim>\<open>bowling.expected_wickets\<close>, applied to the sub-records
  that are present. A value already within its bound is not written.
\<close>

datatype role_class = Batsman | Bowler | AllRounder

definition spec_classify :: "string \<Rightarrow> role_class option" where
  "spec_classify role =
     (let r = map lower_char role
      in if str_contains r ''batsman'' then Some Batsman
         else if str_contains r ''bowler'' then Some Bowler
         else if str_contains r ''all-rounder'' \<or> str_contains r ''all rounder''
           then Some AllRounder
         else None)"

definition spec_bound :: "(rat \<Rightarrow> rat) \<Rightarrow> string \<Rightarrow> string \<Rightarrow> pydict \<Rightarrow> pydict" where
  "spec_bound f sub field prediction =
     (case map_of prediction sub of
        Some (PDict record) \<Rightarrow>
          (case py_get record field (PNum 0) of
             PNum x \<Rightarrow>
               if f x = x then prediction
               else AList.update sub (PDict (AList.update field (PNum (f x)) record)) prediction
           | _ \<Rightarrow> prediction)
      | _ \<Rightarrow> prediction)"

definition spec_floor :: "rat \<Rightarrow> string \<Rightarrow> string \<Rightarrow> pydict \<Rightarrow> pydict" where
  "spec_floor b = spec_bound (\<lambda>x. max x b)"

definition spec_cap :: "rat \<Rightarrow> string \<Rightarrow> string \<Rightarrow> pydict \<Rightarrow> pydict" where
  "spec_cap b = spec_bound (\<lambda>x. min x b)"

definition spec_adjust_for_role :: "string \<Rightarrow> pydict \<Rightarrow> pydict" where
  "spec_adjust_for_role role prediction =
     (case spec_classify role of
        Some Batsman \<Rightarrow>
          spec_cap (1 / 2) ''bowling'' ''expected_wickets''
            (spec_floor 20 ''batting'' ''expected_runs'' prediction)
      | Some Bowler \<Rightarrow>
          spec_floor 1 ''bowling'' ''expected_wickets''
            (spec_cap 15 ''batting'' ''expected_runs'' prediction)
      | Some AllRounder \<Rightarrow>
          spec_floor (1 / 2) ''bowling'' ''expected_wickets''
            (spec_floor 15 ''batting'' ''expected_runs'' prediction)
      | None \<Rightarrow> prediction)"

section \<open>Basic facts\<close>

lemma bind_res_Inr [simp]: "bind_res (Inr x) f = f x"
  by (simp add: bind_res_def)

lemma bind_res_Inl [simp]: "bind_res (Inl e) f = Inl e"
  by (simp add: bind_res_def)

lemma bind_res_eq_Inr: "bind_res m f = Inr y \<longleftrightarrow> (\<exists>x. m = Inr x \<and> f x = Inr y)"
  by (cases m) simp_all

lemma py_greater_num [simp]: "py_greater (PNum x) (PNum y) = Inr (y < x)"
  by (simp add: py_greater_def)

lemma py_max_num [simp]: "py_max (PNum a) (PNum b) = Inr (PNum (max a b))"
  by (auto simp add: py_max_def max_def)

lemma py_min_num [simp]: "py_min (PNum a) (PNum b) = Inr (PNum (min a b))"
  by (auto simp add: py_min_def min_def)

lemma py_max_Inr: "py_max (PNum a) v = Inr w \<Longrightarrow> \<exists>x. v = PNum x \<and> w = PNum (max a x)"
  by (cases v) (auto simp add: py_max_def py_greater_def max_def)

lemma py_round_Inr: "py_round v n = Inr w \<Longrightarrow> \<exists>x. v = PNum x \<and> w = PNum (round_to n x)"
  by (cases v) simp_all

lemma max_one_nonzero [simp]: "max 1 (y::rat) \<noteq> 0"
  by (simp add: max_def)

subsection \<open>Rounding\<close>

lemma floor_rat_numeral_div [simp]:
  "\<lfloor>numeral a / numeral b :: rat\<rfloor> = numeral a div numeral b"
  using floor_divide_of_int_eq [of "numeral a" "numeral b", where ?'a = rat] by simp

lemma floor_rat_neg_numeral_div [simp]:
  "\<lfloor>- (numeral a / numeral b) :: rat\<rfloor> = - numeral a div numeral b"
  using floor_divide_of_int_eq [of "- numeral a" "numeral b", where ?'a = rat] by simp

lemma round_half_even_bounds:
  "of_int (round_half_even y) \<le> y + 1 / 2" "y - 1 / 2 \<le> of_int (round_half_even y)"
  unfolding round_half_even_def Let_def by (simp_all; linarith)+

lemma round_half_even_ge: "of_int k \<le> y \<Longrightarrow> k \<le> round_half_even y"
  unfolding round_half_even_def Let_def by (simp add: le_floor_iff; linarith)

lemma round_half_even_of_int [simp]: "round_half_even (of_int k) = k"
  unfolding round_half_even_def Let_def by simp

lemma round_to_upper: "round_to 1 x \<le> x + 1 / 20"
  using round_half_even_bounds(1) [of "x * 10"] by (simp add: round_to_def field_simps)

lemma round_to_lower: "x - 1 / 20 \<le> round_to 1 x"
  using round_half_even_bounds(2) [of "x * 10"] by (simp add: round_to_def field_simps)

lemma round_to_nonneg: "0 \<le> x \<Longrightarrow> 0 \<le> round_to n x"
  using round_half_even_ge [of 0 "x * 10 ^ n"] by (simp add: round_to_def)

lemma round_to_ge_one: "1 \<le> x \<Longrightarrow> 1 \<le> round_to n x"
  using round_half_even_ge [of "10 ^ n" "x * 10 ^ n"] by (simp add: round_to_def field_simps)

section \<open>Batting records\<close>

text \<open>
  On a record whose five fields are numbers (or absent, read as 0) the function returns,
  and the stored values are these.
\<close>

lemma ensure_batting_numeric:
  assumes "py_get d ''expected_runs'' (PNum 0) = PNum r"
    and "py_get d ''expected_balls'' (PNum 0) = PNum b"
    and "py_get d ''expected_strike_rate'' (PNum 0) = PNum s"
    and "py_get d ''expected_fours'' (PNum 0) = PNum f"
    and "py_get d ''expected_sixes'' (PNum 0) = PNum x"
  shows "ensure_batting_consistency d =
    Inr (py_update d
      [(''expected_runs'', PNum (round_to 1 (max 0 r))),
       (''expected_balls'', PNum (round_to 1 (max 1
           (if 0 < b then b else if 0 < s then r / s * 100 else b)))),
       (''expected_strike_rate'', PNum (round_to 1 (max 0
           (if 0 < b then r / b * 100 else s)))),
       (''expected_fours'', PNum (round_to 1 (max 0
           (if r < f * 4 + x * 6 then f * (r / max 1 (f * 4 + x * 6)) else f)))),
       (''expected_sixes'', PNum (round_to 1 (max 0
           (if r < f * 4 + x * 6 then x * (r / max 1 (f * 4 + x * 6)) else x))))])"
  using assms
  by (simp add: ensure_batting_consistency_def batting_strike_rate_def batting_boundaries_def
      batting_store_def Let_def)

lemma batting_stored:
  "map_of (py_update d
      [(''expected_runs'', R), (''expected_balls'', B), (''expected_strike_rate'', S),
       (''expected_fours'', F), (''expected_sixes'', X)]) ''expected_runs'' = Some R"
  "map_of (py_update d
      [(''expected_runs'', R), (''expected_balls'', B), (''expected_strike_rate'', S),
       (''expected_fours'', F), (''expected_sixes'', X)]) ''expected_balls'' = Some B"
  "map_of (py_update d
      [(''expected_runs'', R), (''expected_balls'', B), (''expected_strike_rate'', S),
       (''expected_fours'', F), (''expected_sixes'', X)]) ''expected_strike_rate'' = Some S"
  "map_of (py_update d
      [(''expected_runs'', R), (''expected_balls'', B), (''expected_strike_rate'', S),
       (''expected_fours'', F), (''expected_sixes'', X)]) ''expected_fours'' = Some F"
  "map_of (py_update d
      [(''expected_runs'', R), (''expected_balls'', B), (''expected_strike_rate'', S),
       (''expected_fours'', F), (''expected_sixes'', X)]) ''expected_sixes'' = Some X"
  by (simp_all add: py_update_def update_conv')

lemma scaled_boundaries_le:
  fixes r f x :: rat
  assumes "0 \<le> f" "0 \<le> x"
  defines "k \<equiv> (if r < f * 4 + x * 6 then r / max 1 (f * 4 + x * 6) else 1)"
  shows "max 0 (f * k) * 4 + max 0 (x * k) * 6 \<le> max 0 r"
proof (cases "r < f * 4 + x * 6")
  case False
  then have "k = 1" by (simp add: k_def)
  with False assms(1,2) show ?thesis by (simp add: max_def)
next
  case True
  then have k: "k = r / max 1 (f * 4 + x * 6)" by (simp add: k_def)
  show ?thesis
  proof (cases "r \<le> 0")
    case True
    then have "k \<le> 0" by (simp add: k divide_nonpos_pos max_def)
    then have "f * k \<le> 0" "x * k \<le> 0"
      using assms(1,2) by (simp_all add: mult_nonneg_nonpos)
    then show ?thesis by (simp add: max_def)
  next
    case False
    then have rpos: "0 < r" by simp
    have kpos: "0 \<le> k" using rpos by (simp add: k max_def)
    have "(f * 4 + x * 6) * k \<le> max 1 (f * 4 + x * 6) * k"
      using kpos by (intro mult_right_mono) simp_all
    also have "\<dots> = r" by (simp add: k)
    finally have "f * k * 4 + x * k * 6 \<le> r" by (simp add: algebra_simps)
    moreover have "0 \<le> f * k" "0 \<le> x * k" using kpos assms(1,2) by simp_all
    ultimately show ?thesis using rpos by (simp add: max_def)
  qed
qed

text \<open>
  C1 (as amended). For a batting record whose five fields are numbers of magnitude at
  most \<^verbatim>\<open>10 ** 6\<close>, with non-negative fours and sixes, the call returns and the returned
  record satisfies \<^verbatim>\<open>expected_fours*4 + expected_sixes*6 \<le> expected_runs + 0.56\<close>. The
  scaling by \<^verbatim>\<open>runs / max(1, boundary_runs)\<close> brings the boundary runs down to the runs;
  the one-decimal rounding of the three stored fields then adds up to
  \<^verbatim>\<open>0.05 * (4 + 6 + 1) = 0.55\<close>, and the remaining 0.01 is the margin for the
  floating-point error of the source.
\<close>

theorem batting_boundary_invariant:
  assumes "py_get d ''expected_runs'' (PNum 0) = PNum r"
    and "py_get d ''expected_balls'' (PNum 0) = PNum b"
    and "py_get d ''expected_strike_rate'' (PNum 0) = PNum s"
    and "py_get d ''expected_fours'' (PNum 0) = PNum f"
    and "py_get d ''expected_sixes'' (PNum 0) = PNum x"
    and "0 \<le> f" and "0 \<le> x"
    and "\<bar>r\<bar> \<le> 1000000" and "\<bar>b\<bar> \<le> 1000000" and "\<bar>s\<bar> \<le> 1000000"
    and "f \<le> 1000000" and "x \<le> 1000000"
  shows "\<exists>d' R F X. ensure_batting_consistency d = Inr d'
      \<and> map_of d' ''expected_runs'' = Some (PNum R)
      \<and> map_of d' ''expected_fours'' = Some (PNum F)
      \<and> map_of d' ''expected_sixes'' = Some (PNum X)
      \<and> F * 4 + X * 6 \<le> R + 14 / 25"
proof -
  define k where "k = (if r < f * 4 + x * 6 then r / max 1 (f * 4 + x * 6) else 1)"
  define R where "R = round_to 1 (max 0 r)"
  define F where "F = round_to 1 (max 0 (f * k))"
  define X where "X = round_to 1 (max 0 (x * k))"
  have exact: "max 0 (f * k) * 4 + max 0 (x * k) * 6 \<le> max 0 r"
    unfolding k_def using assms(6,7) by (rule scaled_boundaries_le)
  have rounded: "F * 4 + X * 6 \<le> R + 14 / 25"
    unfolding R_def F_def X_def
    using exact round_to_upper [of "max 0 (f * k)"] round_to_upper [of "max 0 (x * k)"]
      round_to_lower [of "max 0 r"]
    by linarith
  have fk: "(if r < f * 4 + x * 6 then f * (r / max 1 (f * 4 + x * 6)) else f) = f * k"
    and xk: "(if r < f * 4 + x * 6 then x * (r / max 1 (f * 4 + x * 6)) else x) = x * k"
    by (simp_all add: k_def)
  have "\<exists>d'. ensure_batting_consistency d = Inr d'
          \<and> map_of d' ''expected_runs'' = Some (PNum R)
          \<and> map_of d' ''expected_fours'' = Some (PNum F)
          \<and> map_of d' ''expected_sixes'' = Some (PNum X)"
    unfolding ensure_batting_numeric [OF assms(1-5)] fk xk R_def F_def X_def
    by (simp add: batting_stored)
  with rounded show ?thesis by blast
qed

theorem batting_boundary_invariant_witness:
  "\<exists>d' R F X. ensure_batting_consistency
          [(''expected_runs'', PNum 10), (''expected_fours'', PNum 4),
           (''expected_sixes'', PNum 1)] = Inr d'
       \<and> map_of d' ''expected_runs'' = Some (PNum R)
       \<and> map_of d' ''expected_fours'' = Some (PNum F)
       \<and> map_of d' ''expected_sixes'' = Some (PNum X)
       \<and> F * 4 + X * 6 \<le> R + 14 / 25"
  using batting_boundary_invariant
    [of "[(''expected_runs'', PNum 10), (''expected_fours'', PNum 4),
          (''expected_sixes'', PNum 1)]" 10 0 0 4 1]
  by (simp add: py_get_def)

theorem batting_boundary_tolerance_counterexample:
  "ensure_batting_consistency
     [(''expected_runs'', PNum 10), (''expected_fours'', PNum 4),
      (''expected_sixes'', PNum 1)]
   = Inr [(''expected_runs'', PNum 10), (''expected_fours'', PNum (9 / 5)),
          (''expected_sixes'', PNum (1 / 2)), (''expected_balls'', PNum 1),
          (''expected_strike_rate'', PNum 0)]
   \<and> \<not> ((9 / 5) * 4 + (1 / 2) * 6 \<le> (10 :: rat) + 1 / 1000000)"
  by (simp add: ensure_batting_consistency_def batting_strike_rate_def batting_boundaries_def
      batting_store_def py_get_def py_update_def round_to_def round_half_even_def Let_def)

section \<open>Records returned by the two reconcilers\<close>

text \<open>
  A call that returns has passed every \<^verbatim>\<open>max\<close> and \<^verbatim>\<open>round\<close> of step 3, so the values
  reaching step 3 were numbers and the stored fields are their floored, rounded values.
\<close>

lemma batting_store_Inr:
  assumes "batting_store d runs balls rate fours sixes = Inr d'"
  shows "\<exists>r b s f x. runs = PNum r \<and> balls = PNum b \<and> rate = PNum s \<and> fours = PNum f \<and> sixes = PNum x \<and>
     d' = py_update d
      [(''expected_runs'', PNum (round_to 1 (max 0 r))),
       (''expected_balls'', PNum (round_to 1 (max 1 b))),
       (''expected_strike_rate'', PNum (round_to 1 (max 0 s))),
       (''expected_fours'', PNum (round_to 1 (max 0 f))),
       (''expected_sixes'', PNum (round_to 1 (max 0 x)))]"
  using assms unfolding batting_store_def
  by (auto simp add: bind_res_eq_Inr dest!: py_max_Inr py_round_Inr)

lemma bowling_store_Inr:
  assumes "bowling_store d overs economy wickets conceded = Inr d'"
  shows "\<exists>v e w c. overs = PNum v \<and> economy = PNum e \<and> wickets = PNum w \<and> conceded = PNum c \<and>
     d' = py_update d
      [(''expected_overs'', PNum (round_to 1 (max 0 v))),
       (''expected_economy'', PNum (round_to 1 (max 0 e))),
       (''expected_wickets'', PNum (round_to 1 (max 0 w))),
       (''expected_runs_conceded'', PNum (round_to 1 (max 0 c)))]"
  using assms unfolding bowling_store_def
  by (auto simp add: bind_res_eq_Inr dest!: py_max_Inr py_round_Inr)

lemma bowling_stored:
  "map_of (py_update d
      [(''expected_overs'', V), (''expected_economy'', E), (''expected_wickets'', W),
       (''expected_runs_conceded'', C)]) ''expected_overs'' = Some V"
  "map_of (py_update d
      [(''expected_overs'', V), (''expected_economy'', E), (''expected_wickets'', W),
       (''expected_runs_conceded'', C)]) ''expected_economy'' = Some E"
  "map_of (py_update d
      [(''expected_overs'', V), (''expected_economy'', E), (''expected_wickets'', W),
       (''expected_runs_conceded'', C)]) ''expected_wickets'' = Some W"
  "map_of (py_update d
      [(''expected_overs'', V), (''expected_economy'', E), (''expected_wickets'', W),
       (''expected_runs_conceded'', C)]) ''expected_runs_conceded'' = Some C"
  by (simp_all add: py_update_def update_conv')

text \<open>
  C8. Every record returned by \<^verbatim>\<open>ensure_batting_consistency\<close> or
  \<^verbatim>\<open>ensure_bowling_consistency\<close> holds a non-negative number in each of its reconciled
  fields, and \<^verbatim>\<open>expected_balls\<close> is at least 1, whatever the input held (negative
  values included).
\<close>

theorem reconciled_fields_nonnegative:
  "(ensure_batting_consistency d = Inr d' \<longrightarrow>
      (\<exists>R B S F X.
         map_of d' ''expected_runs'' = Some (PNum R) \<and> 0 \<le> R
       \<and> map_of d' ''expected_balls'' = Some (PNum B) \<and> 1 \<le> B
       \<and> map_of d' ''expected_strike_rate'' = Some (PNum S) \<and> 0 \<le> S
       \<and> map_of d' ''expected_fours'' = Some (PNum F) \<and> 0 \<le> F
       \<and> map_of d' ''expected_sixes'' = Some (PNum X) \<and> 0 \<le> X))
   \<and> (ensure_bowling_consistency e format_type = Inr e' \<longrightarrow>
      (\<exists>V E W C.
         map_of e' ''expected_overs'' = Some (PNum V) \<and> 0 \<le> V
       \<and> map_of e' ''expected_economy'' = Some (PNum E) \<and> 0 \<le> E
       \<and> map_of e' ''expected_wickets'' = Some (PNum W) \<and> 0 \<le> W
       \<and> map_of e' ''expected_runs_conceded'' = Some (PNum C) \<and> 0 \<le> C))"
proof (intro conjI impI)
  assume "ensure_batting_consistency d = Inr d'"
  then obtain runs balls rate fours sixes
    where "batting_store d runs balls rate fours sixes = Inr d'"
    unfolding ensure_batting_consistency_def Let_def
    by (auto simp add: bind_res_eq_Inr)
  from batting_store_Inr [OF this] obtain r b s f x where d': "d' = py_update d
      [(''expected_runs'', PNum (round_to 1 (max 0 r))),
       (''expected_balls'', PNum (round_to 1 (max 1 b))),
       (''expected_strike_rate'', PNum (round_to 1 (max 0 s))),
       (''expected_fours'', PNum (round_to 1 (max 0 f))),
       (''expected_sixes'', PNum (round_to 1 (max 0 x)))]"
    by blast
  show "\<exists>R B S F X.
         map_of d' ''expected_runs'' = Some (PNum R) \<and> 0 \<le> R
       \<and> map_of d' ''expected_balls'' = Some (PNum B) \<and> 1 \<le> B
       \<and> map_of d' ''expected_strike_rate'' = Some (PNum S) \<and> 0 \<le> S
       \<and> map_of d' ''expected_fours'' = Some (PNum F) \<and> 0 \<le> F
       \<and> map_of d' ''expected_sixes'' = Some (PNum X) \<and> 0 \<le> X"
    unfolding d' by (simp add: batting_stored round_to_nonneg round_to_ge_one)
next
  assume "ensure_bowling_consistency e format_type = Inr e'"
  then obtain overs economy wickets conceded
    where "bowling_store e overs economy wickets conceded = Inr e'"
    unfolding ensure_bowling_consistency_def Let_def
    by (auto simp add: bind_res_eq_Inr)
  from bowling_store_Inr [OF this] obtain v ec w c where e': "e' = py_update e
      [(''expected_overs'', PNum (round_to 1 (max 0 v))),
       (''expected_economy'', PNum (round_to 1 (max 0 ec))),
       (''expected_wickets'', PNum (round_to 1 (max 0 w))),
       (''expected_runs_conceded'', PNum (round_to 1 (max 0 c)))]"
    by blast
  show "\<exists>V E W C.
         map_of e' ''expected_overs'' = Some (PNum V) \<and> 0 \<le> V
       \<and> map_of e' ''expected_economy'' = Some (PNum E) \<and> 0 \<le> E
       \<and> map_of e' ''expected_wickets'' = Some (PNum W) \<and> 0 \<le> W
       \<and> map_of e' ''expected_runs_conceded'' = Some (PNum C) \<and> 0 \<le> C"
    unfolding e' by (simp add: bowling_stored round_to_nonneg)
qed


theorem reconciled_fields_nonnegative_witness:
  "ensure_batting_consistency
     [(''expected_runs'', PNum (- 5)), (''expected_balls'', PNum (- 3)),
      (''expected_fours'', PNum (- 1))]
   = Inr [(''expected_runs'', PNum 0), (''expected_balls'', PNum 1),
          (''expected_fours'', PNum 5), (''expected_strike_rate'', PNum 0),
          (''expected_sixes'', PNum 0)]
   \<and> ensure_bowling_consistency
     [(''expected_overs'', PNum (- 2)), (''expected_wickets'', PNum (- 1))] ''T20I''
   = Inr [(''expected_overs'', PNum 0), (''expected_wickets'', PNum 0),
          (''expected_economy'', PNum 0), (''expected_runs_conceded'', PNum 0)]
   \<and> (\<exists>R B S F X.
         map_of [(''expected_runs'', PNum 0), (''expected_balls'', PNum 1),
          (''expected_fours'', PNum 5), (''expected_strike_rate'', PNum 0),
          (''expected_sixes'', PNum 0)] ''expected_runs'' = Some (PNum R) \<and> 0 \<le> R
       \<and> map_of [(''expected_runs'', PNum 0), (''expected_balls'', PNum 1),
          (''expected_fours'', PNum 5), (''expected_strike_rate'', PNum 0),
          (''expected_sixes'', PNum 0)] ''expected_balls'' = Some (PNum B) \<and> 1 \<le> B
       \<and> map_of [(''expected_runs'', PNum 0), (''expected_balls'', PNum 1),
          (''expected_fours'', PNum 5), (''expected_strike_rate'', PNum 0),
          (''expected_sixes'', PNum 0)] ''expected_strike_rate'' = Some (PNum S) \<and> 0 \<le> S
       \<and> map_of [(''expected_runs'', PNum 0), (''expected_balls'', PNum 1),
          (''expected_fours'', PNum 5), (''expected_strike_rate'', PNum 0),
          (''expected_sixes'', PNum 0)] ''expected_fours'' = Some (PNum F) \<and> 0 \<le> F
       \<and> map_of [(''expected_runs'', PNum 0), (''expected_balls'', PNum 1),
          (''expected_fours'', PNum 5), (''expected_strike_rate'', PNum 0),
          (''expected_sixes'', PNum 0)] ''expected_sixes'' = Some (PNum X) \<and> 0 \<le> X)"
proof -
  have a: "ensure_batting_consistency
     [(''expected_runs'', PNum (- 5)), (''expected_balls'', PNum (- 3)),
      (''expected_fours'', PNum (- 1))]
   = Inr [(''expected_runs'', PNum 0), (''expected_balls'', PNum 1),
          (''expected_fours'', PNum 5), (''expected_strike_rate'', PNum 0),
          (''expected_sixes'', PNum 0)]"
    by (simp add: ensure_batting_consistency_def batting_strike_rate_def
        batting_boundaries_def batting_store_def py_get_def py_update_def round_to_def
        round_half_even_def Let_def)
  have b: "ensure_bowling_consistency
     [(''expected_overs'', PNum (- 2)), (''expected_wickets'', PNum (- 1))] ''T20I''
   = Inr [(''expected_overs'', PNum 0), (''expected_wickets'', PNum 0),
          (''expected_economy'', PNum 0), (''expected_runs_conceded'', PNum 0)]"
    by (simp add: ensure_bowling_consistency_def bowling_runs_conceded_def both_positive_def
        bowling_format_cap_def bowling_store_def py_upper_def upper_points_def
        code_points_def py_get_def py_update_def round_to_def round_half_even_def Let_def)
  from reconciled_fields_nonnegative
    [of "[(''expected_runs'', PNum (- 5)), (''expected_balls'', PNum (- 3)),
          (''expected_fours'', PNum (- 1))]"
        "[(''expected_runs'', PNum 0), (''expected_balls'', PNum 1),
          (''expected_fours'', PNum 5), (''expected_strike_rate'', PNum 0),
          (''expected_sixes'', PNum 0)]"]
    a b show ?thesis by blast
qed

section \<open>Strike rate and a second pass over a batting record\<close>

lemma round_to_fixed [simp]: "round_to n (round_to n y) = round_to n y"
  by (simp add: round_to_def)

lemma py_get_stored: "map_of d k = Some v \<Longrightarrow> py_get d k dflt = v"
  by (simp add: py_get_def)

lemma py_update_same5:
  assumes "map_of d k1 = Some v1" "map_of d k2 = Some v2" "map_of d k3 = Some v3"
    "map_of d k4 = Some v4" "map_of d k5 = Some v5"
  shows "py_update d [(k1, v1), (k2, v2), (k3, v3), (k4, v4), (k5, v5)] = d"
  using assms by (simp add: py_update_def update_triv)

text \<open>
  C3 (as amended). For a batting record whose fields are numbers of magnitude at most
  \<^verbatim>\<open>10 ** 6\<close>, with incoming \<^verbatim>\<open>expected_runs \<ge> 0\<close> and \<^verbatim>\<open>expected_balls \<ge> 1\<close>, the call
  returns, the returned runs and balls are within 0.0501 of the incoming ones, and the
  returned strike rate is a one-decimal number within 0.0501 of \<^verbatim>\<open>runs / balls * 100\<close>
  of the incoming runs and balls, whatever strike rate came in: 0.05 for the
  one-decimal rounding, the rest a margin for the floating-point error of the source.
  The relation is to the incoming values: the guard of step 1 tests the incoming
  \<^verbatim>\<open>balls\<close>, and a record without balls and strike rate comes back with balls 1 and
  strike rate 0.
\<close>

theorem batting_strike_rate_from_incoming:
  assumes "py_get d ''expected_runs'' (PNum 0) = PNum r"
    and "py_get d ''expected_balls'' (PNum 0) = PNum b"
    and "py_get d ''expected_strike_rate'' (PNum 0) = PNum s"
    and "py_get d ''expected_fours'' (PNum 0) = PNum f"
    and "py_get d ''expected_sixes'' (PNum 0) = PNum x"
    and "0 \<le> r" and "1 \<le> b"
    and "r \<le> 1000000" and "b \<le> 1000000" and "\<bar>s\<bar> \<le> 1000000"
    and "\<bar>f\<bar> \<le> 1000000" and "\<bar>x\<bar> \<le> 1000000"
  shows "\<exists>d' R B S k. ensure_batting_consistency d = Inr d'
      \<and> map_of d' ''expected_runs'' = Some (PNum R) \<and> \<bar>R - r\<bar> \<le> 501 / 10000
      \<and> map_of d' ''expected_balls'' = Some (PNum B) \<and> \<bar>B - b\<bar> \<le> 501 / 10000
      \<and> map_of d' ''expected_strike_rate'' = Some (PNum S)
      \<and> S = of_int k / 10 \<and> \<bar>S - r / b * 100\<bar> \<le> 501 / 10000"
proof -
  define q where "q = r / b * 100"
  have "0 \<le> q" using assms(6,7) by (simp add: q_def)
  then have m: "max 0 r = r" "max 1 b = b" "max 0 (r / b * 100) = q" "0 < b"
    using assms(6,7) by (simp_all add: max_def q_def)
  have close: "\<bar>round_to 1 y - y\<bar> \<le> 501 / 10000" for y
    using round_to_upper [of y] round_to_lower [of y] by linarith
  have res: "ensure_batting_consistency d = Inr (py_update d
      [(''expected_runs'', PNum (round_to 1 r)),
       (''expected_balls'', PNum (round_to 1 b)),
       (''expected_strike_rate'', PNum (round_to 1 q)),
       (''expected_fours'', PNum (round_to 1 (max 0
           (if r < f * 4 + x * 6 then f * (r / max 1 (f * 4 + x * 6)) else f)))),
       (''expected_sixes'', PNum (round_to 1 (max 0
           (if r < f * 4 + x * 6 then x * (r / max 1 (f * 4 + x * 6)) else x))))])"
    by (simp only: ensure_batting_numeric [OF assms(1-5)] m if_True)
  have dec: "round_to 1 q = of_int (round_half_even (q * 10)) / 10"
    by (simp add: round_to_def)
  have "\<exists>d'. ensure_batting_consistency d = Inr d'
      \<and> map_of d' ''expected_runs'' = Some (PNum (round_to 1 r))
      \<and> map_of d' ''expected_balls'' = Some (PNum (round_to 1 b))
      \<and> map_of d' ''expected_strike_rate'' = Some (PNum (round_to 1 q))"
    unfolding res by (rule exI, intro conjI, rule refl) (rule batting_stored)+
  with close [of r] close [of b] close [of q] dec show ?thesis
    unfolding q_def by blast
qed

theorem batting_strike_rate_from_incoming_witness:
  "\<exists>d' R B S k. ensure_batting_consistency
         [(''expected_runs'', PNum 10), (''expected_balls'', PNum 3)] = Inr d'
      \<and> map_of d' ''expected_runs'' = Some (PNum R) \<and> \<bar>R - 10\<bar> \<le> 501 / 10000
      \<and> map_of d' ''expected_balls'' = Some (PNum B) \<and> \<bar>B - 3\<bar> \<le> 501 / 10000
      \<and> map_of d' ''expected_strike_rate'' = Some (PNum S)
      \<and> S = of_int k / 10 \<and> \<bar>S - 10 / 3 * 100\<bar> \<le> 501 / 10000"
  using batting_strike_rate_from_incoming
    [of "[(''expected_runs'', PNum 10), (''expected_balls'', PNum 3)]" 10 3 0 0 0]
  by (simp add: py_get_def)

theorem batting_strike_rate_counterexample:
  "ensure_batting_consistency [(''expected_runs'', PNum 10)]
   = Inr [(''expected_runs'', PNum 10), (''expected_balls'', PNum 1),
          (''expected_strike_rate'', PNum 0), (''expected_fours'', PNum 0),
          (''expected_sixes'', PNum 0)]
   \<and> (0 :: rat) < 1
   \<and> \<not> \<bar>0 - 10 / 1 * 100\<bar> < (1 / 1000000 :: rat)
   \<and> \<bar>0 - 10 / 1 * 100\<bar> = (1000 :: rat)"
  by (simp add: ensure_batting_consistency_def batting_strike_rate_def batting_boundaries_def
      batting_store_def py_get_def py_update_def round_to_def round_half_even_def Let_def)

text \<open>
  C9 (as amended). When the record returned by a first pass has fields of magnitude at
  most \<^verbatim>\<open>10 ** 6\<close> and is consistent in its rounded fields, a second pass returns it
  unchanged. Consistent means that \<^verbatim>\<open>expected_strike_rate\<close> is the one-decimal rounding
  of \<^verbatim>\<open>expected_runs / expected_balls * 100\<close>, that this quotient is not within
  \<^verbatim>\<open>10 ** -6\<close> of a tie between two one-decimal numbers (where the floating-point
  quotient of the source may round to the other side), and that
  \<^verbatim>\<open>expected_fours*4 + expected_sixes*6 \<le> expected_runs\<close>. Consistency of the unrounded
  input is not enough: the second pass computes the strike rate again from the rounded
  runs and balls.
\<close>

theorem batting_fixed_point:
  assumes "ensure_batting_consistency d = Inr d1"
    and "map_of d1 ''expected_runs'' = Some (PNum R)"
    and "map_of d1 ''expected_balls'' = Some (PNum B)"
    and "map_of d1 ''expected_strike_rate'' = Some (PNum S)"
    and "map_of d1 ''expected_fours'' = Some (PNum F)"
    and "map_of d1 ''expected_sixes'' = Some (PNum X)"
    and "S = round_to 1 (R / B * 100)"
    and "F * 4 + X * 6 \<le> R"
    and "1 / 100000 \<le> \<bar>R / B * 1000 - of_int \<lfloor>R / B * 1000\<rfloor> - 1 / 2\<bar>"
    and "R \<le> 1000000" and "B \<le> 1000000" and "F \<le> 1000000" and "X \<le> 1000000"
  shows "ensure_batting_consistency d1 = Inr d1"
proof -
  from assms(1) obtain runs balls rate fours sixes
    where "batting_store d runs balls rate fours sixes = Inr d1"
    unfolding ensure_batting_consistency_def Let_def
    by (auto simp add: bind_res_eq_Inr)
  from batting_store_Inr [OF this] obtain r b s f x where d1: "d1 = py_update d
      [(''expected_runs'', PNum (round_to 1 (max 0 r))),
       (''expected_balls'', PNum (round_to 1 (max 1 b))),
       (''expected_strike_rate'', PNum (round_to 1 (max 0 s))),
       (''expected_fours'', PNum (round_to 1 (max 0 f))),
       (''expected_sixes'', PNum (round_to 1 (max 0 x)))]"
    by blast
  have R: "R = round_to 1 (max 0 r)" and B: "B = round_to 1 (max 1 b)"
    and F: "F = round_to 1 (max 0 f)" and X: "X = round_to 1 (max 0 x)"
    using assms(2,3,5,6) unfolding d1 by (simp_all add: batting_stored)
  have R0: "0 \<le> R" and B1: "1 \<le> B" and F0: "0 \<le> F" and X0: "0 \<le> X"
    unfolding R B F X by (simp_all add: round_to_nonneg round_to_ge_one)
  have rate0: "0 \<le> R / B * 100" using R0 B1 by simp
  have fx: "round_to 1 (max 0 R) = R" "round_to 1 (max 1 B) = B"
    "round_to 1 (max 0 F) = F" "round_to 1 (max 0 X) = X"
    "round_to 1 (max 0 (R / B * 100)) = S"
    using R0 B1 F0 X0 rate0 assms(7)
    by (simp_all add: max_absorb2) (simp_all add: R B F X)
  have "ensure_batting_consistency d1 = Inr (py_update d1
      [(''expected_runs'', PNum R), (''expected_balls'', PNum B),
       (''expected_strike_rate'', PNum S), (''expected_fours'', PNum F),
       (''expected_sixes'', PNum X)])"
    using B1 assms(8) fx
    by (simp add: ensure_batting_numeric [OF py_get_stored [OF assms(2)]
          py_get_stored [OF assms(3)] py_get_stored [OF assms(4)]
          py_get_stored [OF assms(5)] py_get_stored [OF assms(6)]])
  also have "py_update d1
      [(''expected_runs'', PNum R), (''expected_balls'', PNum B),
       (''expected_strike_rate'', PNum S), (''expected_fours'', PNum F),
       (''expected_sixes'', PNum X)] = d1"
    by (rule py_update_same5 [OF assms(2-6)])
  finally show ?thesis .
qed


theorem batting_fixed_point_witness:
  "ensure_batting_consistency [(''expected_runs'', PNum 10), (''expected_balls'', PNum 4)]
   = Inr [(''expected_runs'', PNum 10), (''expected_balls'', PNum 4),
          (''expected_strike_rate'', PNum 250), (''expected_fours'', PNum 0),
          (''expected_sixes'', PNum 0)]
   \<and> ensure_batting_consistency
         [(''expected_runs'', PNum 10), (''expected_balls'', PNum 4),
          (''expected_strike_rate'', PNum 250), (''expected_fours'', PNum 0),
          (''expected_sixes'', PNum 0)]
   = Inr [(''expected_runs'', PNum 10), (''expected_balls'', PNum 4),
          (''expected_strike_rate'', PNum 250), (''expected_fours'', PNum 0),
          (''expected_sixes'', PNum 0)]"
proof -
  have a: "ensure_batting_consistency
       [(''expected_runs'', PNum 10), (''expected_balls'', PNum 4)]
     = Inr [(''expected_runs'', PNum 10), (''expected_balls'', PNum 4),
          (''expected_strike_rate'', PNum 250), (''expected_fours'', PNum 0),
          (''expected_sixes'', PNum 0)]"
    by (simp add: ensure_batting_consistency_def batting_strike_rate_def
        batting_boundaries_def batting_store_def py_get_def py_update_def round_to_def
        round_half_even_def Let_def)
  have "ensure_batting_consistency
          [(''expected_runs'', PNum 10), (''expected_balls'', PNum 4),
           (''expected_strike_rate'', PNum 250), (''expected_fours'', PNum 0),
           (''expected_sixes'', PNum 0)]
     = Inr [(''expected_runs'', PNum 10), (''expected_balls'', PNum 4),
          (''expected_strike_rate'', PNum 250), (''expected_fours'', PNum 0),
          (''expected_sixes'', PNum 0)]"
    by (rule batting_fixed_point [OF a, of 10 4 250 0 0])
      (simp_all add: round_to_def round_half_even_def Let_def)
  with a show ?thesis by (rule conjI)
qed

theorem batting_second_pass_counterexample:
  "(12550 / 13 :: rat) = (251 / 25) / (26 / 25) * 100
   \<and> (0 :: rat) * 4 + 0 * 6 \<le> 251 / 25
   \<and> ensure_batting_consistency
        [(''expected_runs'', PNum (251 / 25)), (''expected_balls'', PNum (26 / 25)),
         (''expected_strike_rate'', PNum (12550 / 13)), (''expected_fours'', PNum 0),
         (''expected_sixes'', PNum 0)]
      = Inr [(''expected_runs'', PNum 10), (''expected_balls'', PNum 1),
         (''expected_strike_rate'', PNum (4827 / 5)), (''expected_fours'', PNum 0),
         (''expected_sixes'', PNum 0)]
   \<and> ensure_batting_consistency
        [(''expected_runs'', PNum 10), (''expected_balls'', PNum 1),
         (''expected_strike_rate'', PNum (4827 / 5)), (''expected_fours'', PNum 0),
         (''expected_sixes'', PNum 0)]
      = Inr [(''expected_runs'', PNum 10), (''expected_balls'', PNum 1),
         (''expected_strike_rate'', PNum 1000), (''expected_fours'', PNum 0),
         (''expected_sixes'', PNum 0)]
   \<and> (1000 :: rat) - 4827 / 5 = 173 / 5"
  by (simp add: ensure_batting_consistency_def batting_strike_rate_def batting_boundaries_def
      batting_store_def py_get_def py_update_def round_to_def round_half_even_def Let_def)

section \<open>Bowling records\<close>

lemma both_positive_num [simp]:
  "both_positive (PNum a) (PNum b) = Inr (0 < a \<and> 0 < b)"
  by (simp add: both_positive_def)


text \<open>
  C5. The source computes \<^verbatim>\<open>runs_conceded = economy * overs\<close> in step 1 and caps the
  overs in step 2, so under T20I a record with 10 overs at economy 6 comes back with
  4 overs, economy 6 and 60 runs conceded, not 24.
\<close>

theorem bowling_cap_after_product:
  "ensure_bowling_consistency
     [(''expected_overs'', PNum 10), (''expected_economy'', PNum 6)] ''T20I''
   = Inr [(''expected_overs'', PNum 4), (''expected_economy'', PNum 6),
          (''expected_wickets'', PNum 0), (''expected_runs_conceded'', PNum 60)]
   \<and> (60 :: rat) \<noteq> 6 * 4"
  by (simp add: ensure_bowling_consistency_def bowling_runs_conceded_def both_positive_def
      bowling_format_cap_def bowling_store_def py_upper_def upper_points_def
      code_points_def py_get_def py_update_def round_to_def round_half_even_def Let_def)


section \<open>Match predictions\<close>

lemma numeric_values_Cons:
  "numeric_values ((k, v) # rest) \<longleftrightarrow> (\<exists>x. v = PNum x) \<and> numeric_values rest"
  by (cases v) (simp_all add: numeric_values_def)

lemma clamp_score_numeric: "\<exists>y. clamp_score (PNum x) format_type = Inr (PNum y)"
  by (simp add: clamp_score_def)

lemma clamp_scores_numeric:
  "numeric_values items \<Longrightarrow> \<exists>items'. clamp_scores items format_type = Inr items'"
proof (induction items)
  case Nil
  then show ?case by simp
next
  case (Cons a items)
  obtain k v where a: "a = (k, v)" by (cases a)
  from Cons.prems obtain x where v: "v = PNum x" and rest: "numeric_values items"
    unfolding a numeric_values_Cons by blast
  from Cons.IH [OF rest] obtain items' where "clamp_scores items format_type = Inr items'" ..
  moreover obtain y where "clamp_score (PNum x) format_type = Inr (PNum y)"
    using clamp_score_numeric by blast
  ultimately show ?case by (simp add: a v)
qed

lemma match_scores_total:
  assumes "py_get mp ''expected_scores'' (PDict []) = PDict es" and "numeric_values es"
  shows "\<exists>mp'. match_scores mp format_type = Inr mp'
           \<and> map_of mp' ''prediction'' = map_of mp ''prediction''"
proof -
  from clamp_scores_numeric [OF assms(2)] obtain es'
    where "clamp_scores es format_type = Inr es'" ..
  then show ?thesis
    using assms(1)
    by (simp add: match_scores_def Let_def py_truthy_def py_items_def update_conv')
qed

lemma match_scores_other_keys:
  assumes "match_scores mp format_type = Inr mp'" and "k \<noteq> ''expected_scores''"
  shows "map_of mp' k = map_of mp k"
  using assms
  by (auto simp add: match_scores_def Let_def bind_res_eq_Inr update_conv' split: if_splits)

lemma normalize_two_numeric:
  assumes "map_of mp ''prediction'' = Some (PDict pred)"
    and "t1 \<noteq> t2"
  shows "normalize_two mp (PDict [(t1, PNum p1), (t2, PNum p2)]) t1 t2 =
    Inr (AList.update ''prediction''
      (PDict (AList.update ''win_probability''
         (PNum (round_to 3 (if 0 < p1 + p2 then max (p1 / (p1 + p2)) (p2 / (p1 + p2)) else 1 / 2)))
         (AList.update ''team_probabilities''
            (PDict [(t1, PNum (round_to 3 (if 0 < p1 + p2 then p1 / (p1 + p2) else 1 / 2))),
                    (t2, PNum (round_to 3 (if 0 < p1 + p2 then p2 / (p1 + p2) else 1 / 2)))])
            pred)))
      mp)"
  using assms
  by (simp add: normalize_two_def py_get_attr_def py_get_def py_setitem_def py_getitem_def)

lemma match_probabilities_two:
  assumes "map_of mp ''prediction'' = Some (PDict pred)"
    and "map_of pred ''team_probabilities'' = Some (PDict [(t1, PNum p1), (t2, PNum p2)])"
    and "t1 \<noteq> t2"
  shows "match_probabilities mp =
    Inr (AList.update ''prediction''
      (PDict (AList.update ''win_probability''
         (PNum (round_to 3 (if 0 < p1 + p2 then max (p1 / (p1 + p2)) (p2 / (p1 + p2)) else 1 / 2)))
         (AList.update ''team_probabilities''
            (PDict [(t1, PNum (round_to 3 (if 0 < p1 + p2 then p1 / (p1 + p2) else 1 / 2))),
                    (t2, PNum (round_to 3 (if 0 < p1 + p2 then p2 / (p1 + p2) else 1 / 2)))])
            pred)))
      mp)"
  using assms(1,2) normalize_two_numeric [OF assms(1,3), of p1 p2]
  by (simp add: match_probabilities_def py_get_attr_def py_get_def py_truthy_def py_keys_def)

lemma match_probabilities_skip:
  assumes "py_get mp ''prediction'' (PDict []) = PDict pred"
    and "py_get pred ''team_probabilities'' (PDict []) = PDict tp"
    and "length tp \<noteq> 2"
  shows "match_probabilities mp = Inr mp"
  using assms
  by (auto simp add: match_probabilities_def py_get_attr_def py_truthy_def py_keys_def
      split: list.splits)


lemma round_half_even_le: "y \<le> of_int k \<Longrightarrow> round_half_even y \<le> k"
  unfolding round_half_even_def Let_def by (simp add: floor_le_iff; linarith)


lemma normalize_two_other_keys:
  assumes "normalize_two mp tpv t1 t2 = Inr mp'" and "k \<noteq> ''prediction''"
  shows "map_of mp' k = map_of mp k"
proof -
  from assms(1) obtain x where "mp' = AList.update ''prediction'' x mp"
    unfolding normalize_two_def
    by (auto simp add: bind_res_eq_Inr split: prod.splits)
  then show ?thesis using assms(2) by (simp add: update_conv')
qed

lemma match_probabilities_other_keys:
  assumes "match_probabilities mp = Inr mp'" and "k \<noteq> ''prediction''"
  shows "map_of mp' k = map_of mp k"
proof -
  from assms(1) obtain tpv where r:
    "(if py_truthy tpv then
        bind_res (py_keys tpv) (\<lambda>teams.
          case teams of
            [team1, team2] \<Rightarrow> normalize_two mp tpv team1 team2
          | _ \<Rightarrow> Inr mp)
      else Inr mp) = Inr mp'"
    unfolding match_probabilities_def by (auto simp add: bind_res_eq_Inr)
  show ?thesis
  proof (cases "py_truthy tpv")
    case False
    with r show ?thesis by simp
  next
    case True
    with r obtain teams where
      "(case teams of
          [team1, team2] \<Rightarrow> normalize_two mp tpv team1 team2
        | _ \<Rightarrow> Inr mp) = Inr mp'"
      by (auto simp add: bind_res_eq_Inr)
    then show ?thesis
      using normalize_two_other_keys [OF _ assms(2), of mp tpv _ _ mp']
      by (auto split: list.splits)
  qed
qed


lemma floor_rat_one_div [simp]:
  "\<lfloor>1 / numeral b :: rat\<rfloor> = 1 div numeral b"
  using floor_divide_of_int_eq [of 1 "numeral b", where ?'a = rat] by simp

lemma floor_rat_neg_one_div [simp]:
  "\<lfloor>- (1 / numeral b) :: rat\<rfloor> = - 1 div numeral b"
  using floor_divide_of_int_eq [of "- 1" "numeral b", where ?'a = rat] by simp

lemma match_scores_after_probabilities:
  assumes "py_get mp ''expected_scores'' (PDict []) = PDict es" and "numeric_values es"
  shows "\<exists>mp'. match_scores (AList.update ''prediction'' v mp) format_type = Inr mp'
           \<and> map_of mp' ''prediction'' = Some v"
proof -
  have "py_get (AList.update ''prediction'' v mp) ''expected_scores'' (PDict []) = PDict es"
    using assms(1) by (simp add: py_get_def update_conv')
  from match_scores_total [OF this assms(2), of format_type]
  show ?thesis by (simp add: update_conv')
qed

lemma round_half_even_mono:
  assumes "x \<le> y"
  shows "round_half_even x \<le> round_half_even y"
proof (cases "\<lfloor>x\<rfloor> = \<lfloor>y\<rfloor>")
  case True
  with assms show ?thesis unfolding round_half_even_def Let_def by simp
next
  case False
  moreover have "\<lfloor>x\<rfloor> \<le> \<lfloor>y\<rfloor>" using assms by (rule floor_mono)
  ultimately have "\<lfloor>x\<rfloor> + 1 \<le> \<lfloor>y\<rfloor>" by simp
  moreover have "round_half_even x \<le> \<lfloor>x\<rfloor> + 1"
    by (rule round_half_even_le) (simp, linarith)
  moreover have "\<lfloor>y\<rfloor> \<le> round_half_even y"
    by (rule round_half_even_ge) simp
  ultimately show ?thesis by linarith
qed

lemma round_to_mono: "x \<le> y \<Longrightarrow> round_to n x \<le> round_to n y"
  unfolding round_to_def
  by (intro divide_right_mono) (simp_all add: round_half_even_mono mult_right_mono)

lemma round_to_max: "round_to n (max x y) = max (round_to n x) (round_to n y)"
proof (cases "x \<le> y")
  case True
  then show ?thesis by (simp add: max_def round_to_mono)
next
  case False
  then have "round_to n y \<le> round_to n x" by (intro round_to_mono) simp
  with False show ?thesis by (simp add: max_def)
qed

lemma round_to_3_close: "\<bar>round_to 3 x - x\<bar> \<le> 1 / 2000"
proof -
  define k :: rat where "k = of_int (round_half_even (x * 1000))"
  have "k \<le> x * 1000 + 1 / 2" and "x * 1000 - 1 / 2 \<le> k"
    unfolding k_def by (rule round_half_even_bounds)+
  then have "\<bar>k / 1000 - x\<bar> \<le> 1 / 2000" by linarith
  then show ?thesis by (simp add: round_to_def k_def)
qed

text \<open>
  The stored probabilities of a two-team prediction, in exact arithmetic.
\<close>

lemma match_two_entries:
  assumes "map_of mp ''prediction'' = Some (PDict pred)"
    and "map_of pred ''team_probabilities'' = Some (PDict [(t1, PNum p1), (t2, PNum p2)])"
    and "t1 \<noteq> t2"
    and "py_get mp ''expected_scores'' (PDict []) = PDict es"
    and "numeric_values es"
  shows "\<exists>mp'. ensure_match_prediction_consistency mp format_type = Inr mp'
     \<and> map_of mp' ''prediction'' = Some (PDict
         (AList.update ''win_probability''
            (PNum (max (round_to 3 (if 0 < p1 + p2 then p1 / (p1 + p2) else 1 / 2))
                       (round_to 3 (if 0 < p1 + p2 then p2 / (p1 + p2) else 1 / 2))))
         (AList.update ''team_probabilities''
            (PDict
               [(t1, PNum (round_to 3 (if 0 < p1 + p2 then p1 / (p1 + p2) else 1 / 2))),
                (t2, PNum (round_to 3 (if 0 < p1 + p2 then p2 / (p1 + p2) else 1 / 2)))])
            pred)))"
proof -
  have "round_to 3 (if 0 < p1 + p2 then max (p1 / (p1 + p2)) (p2 / (p1 + p2)) else 1 / 2)
      = max (round_to 3 (if 0 < p1 + p2 then p1 / (p1 + p2) else 1 / 2))
            (round_to 3 (if 0 < p1 + p2 then p2 / (p1 + p2) else 1 / 2))"
    by (simp add: round_to_max)
  then show ?thesis
    unfolding ensure_match_prediction_consistency_def
      match_probabilities_two [OF assms(1,2,3)] bind_res_Inr
    using match_scores_after_probabilities [OF assms(4,5)] by simp
qed

lemma match_two_positive:
  assumes "map_of mp ''prediction'' = Some (PDict pred)"
    and "map_of pred ''team_probabilities'' = Some (PDict [(t1, PNum p1), (t2, PNum p2)])"
    and "t1 \<noteq> t2"
    and "py_get mp ''expected_scores'' (PDict []) = PDict es"
    and "numeric_values es"
    and "0 < p1 + p2"
  shows "\<exists>mp' a b j k. ensure_match_prediction_consistency mp format_type = Inr mp'
     \<and> map_of mp' ''prediction'' = Some (PDict
         (AList.update ''win_probability'' (PNum (max a b))
         (AList.update ''team_probabilities'' (PDict [(t1, PNum a), (t2, PNum b)]) pred)))
     \<and> a = of_int j / 1000 \<and> b = of_int k / 1000
     \<and> \<bar>a - p1 / (p1 + p2)\<bar> \<le> 1 / 2000 \<and> \<bar>b - p2 / (p1 + p2)\<bar> \<le> 1 / 2000
     \<and> a = round_to 3 (p1 / (p1 + p2)) \<and> b = round_to 3 (p2 / (p1 + p2))"
proof -
  define a b where "a = round_to 3 (p1 / (p1 + p2))" and "b = round_to 3 (p2 / (p1 + p2))"
  from match_two_entries [OF assms(1-5), of format_type] assms(6)
  obtain mp' where "ensure_match_prediction_consistency mp format_type = Inr mp'"
    and "map_of mp' ''prediction'' = Some (PDict
         (AList.update ''win_probability'' (PNum (max a b))
         (AList.update ''team_probabilities'' (PDict [(t1, PNum a), (t2, PNum b)]) pred)))"
    by (auto simp add: a_def b_def)
  moreover have "a = of_int (round_half_even (p1 / (p1 + p2) * 1000)) / 1000"
    and "b = of_int (round_half_even (p2 / (p1 + p2) * 1000)) / 1000"
    by (simp_all add: a_def b_def round_to_def)
  moreover have "\<bar>a - p1 / (p1 + p2)\<bar> \<le> 1 / 2000" and "\<bar>b - p2 / (p1 + p2)\<bar> \<le> 1 / 2000"
    unfolding a_def b_def by (rule round_to_3_close)+
  ultimately show ?thesis using a_def b_def by blast
qed

lemma nested_probabilities_example:
  "ensure_match_prediction_consistency
      [(''prediction'', PDict [(''team_probabilities'',
          PDict [(''A'', PNum 3), (''B'', PNum 1)])])] ''T20I''
   = Inr [(''prediction'', PDict
          [(''team_probabilities'', PDict [(''A'', PNum (3 / 4)), (''B'', PNum (1 / 4))]),
           (''win_probability'', PNum (3 / 4))])]"
  by (simp add: ensure_match_prediction_consistency_def match_probabilities_def
      match_scores_def normalize_two_def py_get_attr_def py_get_def py_truthy_def py_keys_def
      py_setitem_def py_getitem_def round_to_def round_half_even_def Let_def)

text \<open>
  C6. With exactly two entries \<^verbatim>\<open>p1\<close> and \<^verbatim>\<open>p2\<close> under
  \<^verbatim>\<open>prediction.team_probabilities\<close>, of magnitude at most \<^verbatim>\<open>10 ** 15\<close> (integers up
  to there are floats without error): when \<^verbatim>\<open>p1 + p2\<close> is at least \<^verbatim>\<open>10 ** -290\<close> (the
  quotients then stay within the double range), the entries become three-decimal
  numbers within half a thousandth of \<^verbatim>\<open>p1/(p1+p2)\<close> and \<^verbatim>\<open>p2/(p1+p2)\<close>, that is
  these ratios rounded to three decimals (with a relative margin of \<^verbatim>\<open>10 ** -9\<close> for
  the floating-point error of the sum and the quotient in the source); when
  \<^verbatim>\<open>p1 + p2 \<le> 0\<close>, they become 0.5 and 0.5. \<^verbatim>\<open>prediction.win_probability\<close> becomes the larger of the two stored entries,
  which is the rounded maximum of the normalised pair, rounding being monotone. With
  any other number of entries the \<^verbatim>\<open>prediction\<close> record is returned as it was. In each
  case the call returns (the expected scores, if any, being numbers).
\<close>

theorem match_probabilities_normalised:
  assumes "map_of mp ''prediction'' = Some (PDict pred)"
    and "map_of pred ''team_probabilities'' = Some (PDict tp)"
    and "py_get mp ''expected_scores'' (PDict []) = PDict es"
    and "numeric_values es"
  shows
    "(tp = [(t1, PNum p1), (t2, PNum p2)] \<and> t1 \<noteq> t2
        \<and> \<bar>p1\<bar> \<le> 10 ^ 15 \<and> \<bar>p2\<bar> \<le> 10 ^ 15 \<and> 1 / 10 ^ 290 \<le> p1 + p2 \<longrightarrow>
        (\<exists>mp' a b j k. ensure_match_prediction_consistency mp format_type = Inr mp'
           \<and> map_of mp' ''prediction'' = Some (PDict
               (AList.update ''win_probability'' (PNum (max a b))
               (AList.update ''team_probabilities''
                  (PDict [(t1, PNum a), (t2, PNum b)]) pred)))
           \<and> a = of_int j / 1000 \<and> b = of_int k / 1000
           \<and> \<bar>a - p1 / (p1 + p2)\<bar> \<le> 1 / 2000 + \<bar>p1 / (p1 + p2)\<bar> / 1000000000
           \<and> \<bar>b - p2 / (p1 + p2)\<bar> \<le> 1 / 2000 + \<bar>p2 / (p1 + p2)\<bar> / 1000000000))
     \<and> (tp = [(t1, PNum p1), (t2, PNum p2)] \<and> t1 \<noteq> t2
        \<and> \<bar>p1\<bar> \<le> 10 ^ 15 \<and> \<bar>p2\<bar> \<le> 10 ^ 15 \<and> p1 + p2 \<le> 0 \<longrightarrow>
        (\<exists>mp'. ensure_match_prediction_consistency mp format_type = Inr mp'
           \<and> map_of mp' ''prediction'' = Some (PDict
               (AList.update ''win_probability'' (PNum (1 / 2))
               (AList.update ''team_probabilities''
                  (PDict [(t1, PNum (1 / 2)), (t2, PNum (1 / 2))]) pred)))))
     \<and> (length tp \<noteq> 2 \<longrightarrow>
        (\<exists>mp'. ensure_match_prediction_consistency mp format_type = Inr mp'
           \<and> map_of mp' ''prediction'' = Some (PDict pred)))"
proof (intro conjI impI)
  assume a: "tp = [(t1, PNum p1), (t2, PNum p2)] \<and> t1 \<noteq> t2
        \<and> \<bar>p1\<bar> \<le> 10 ^ 15 \<and> \<bar>p2\<bar> \<le> 10 ^ 15 \<and> 1 / 10 ^ 290 \<le> p1 + p2"
  then have tp: "map_of pred ''team_probabilities'' = Some (PDict [(t1, PNum p1), (t2, PNum p2)])"
    and ne: "t1 \<noteq> t2" and pos: "0 < p1 + p2"
    using assms(2) by simp_all
  from match_two_positive [OF assms(1) tp ne assms(3,4) pos, of format_type]
  obtain mp' a b j k where
    "ensure_match_prediction_consistency mp format_type = Inr mp'"
    "map_of mp' ''prediction'' = Some (PDict
         (AList.update ''win_probability'' (PNum (max a b))
         (AList.update ''team_probabilities'' (PDict [(t1, PNum a), (t2, PNum b)]) pred)))"
    "a = of_int j / 1000" "b = of_int k / 1000"
    and ca: "\<bar>a - p1 / (p1 + p2)\<bar> \<le> 1 / 2000" and cb: "\<bar>b - p2 / (p1 + p2)\<bar> \<le> 1 / 2000"
    by blast
  moreover have "\<bar>a - p1 / (p1 + p2)\<bar> \<le> 1 / 2000 + \<bar>p1 / (p1 + p2)\<bar> / 1000000000"
    using ca by (rule order_trans) simp
  moreover have "\<bar>b - p2 / (p1 + p2)\<bar> \<le> 1 / 2000 + \<bar>p2 / (p1 + p2)\<bar> / 1000000000"
    using cb by (rule order_trans) simp
  ultimately show "\<exists>mp' a b j k. ensure_match_prediction_consistency mp format_type = Inr mp'
           \<and> map_of mp' ''prediction'' = Some (PDict
               (AList.update ''win_probability'' (PNum (max a b))
               (AList.update ''team_probabilities''
                  (PDict [(t1, PNum a), (t2, PNum b)]) pred)))
           \<and> a = of_int j / 1000 \<and> b = of_int k / 1000
           \<and> \<bar>a - p1 / (p1 + p2)\<bar> \<le> 1 / 2000 + \<bar>p1 / (p1 + p2)\<bar> / 1000000000
           \<and> \<bar>b - p2 / (p1 + p2)\<bar> \<le> 1 / 2000 + \<bar>p2 / (p1 + p2)\<bar> / 1000000000"
    by blast
next
  assume a: "tp = [(t1, PNum p1), (t2, PNum p2)] \<and> t1 \<noteq> t2
        \<and> \<bar>p1\<bar> \<le> 10 ^ 15 \<and> \<bar>p2\<bar> \<le> 10 ^ 15 \<and> p1 + p2 \<le> 0"
  then have tp: "map_of pred ''team_probabilities'' = Some (PDict [(t1, PNum p1), (t2, PNum p2)])"
    and ne: "t1 \<noteq> t2" and npos: "\<not> 0 < p1 + p2"
    using assms(2) by simp_all
  have half: "round_to 3 (1 / 2) = 1 / 2"
    by (simp add: round_to_def round_half_even_def Let_def)
  from match_two_entries [OF assms(1) tp ne assms(3,4), of format_type] npos
  show "\<exists>mp'. ensure_match_prediction_consistency mp format_type = Inr mp'
           \<and> map_of mp' ''prediction'' = Some (PDict
               (AList.update ''win_probability'' (PNum (1 / 2))
               (AList.update ''team_probabilities''
                  (PDict [(t1, PNum (1 / 2)), (t2, PNum (1 / 2))]) pred)))"
    by (simp add: half)
next
  assume len: "length tp \<noteq> 2"
  have a: "py_get mp ''prediction'' (PDict []) = PDict pred"
    and b: "py_get pred ''team_probabilities'' (PDict []) = PDict tp"
    using assms(1,2) by (simp_all add: py_get_def)
  show "\<exists>mp'. ensure_match_prediction_consistency mp format_type = Inr mp'
           \<and> map_of mp' ''prediction'' = Some (PDict pred)"
    unfolding ensure_match_prediction_consistency_def
      match_probabilities_skip [OF a b len] bind_res_Inr
    using match_scores_total [OF assms(3,4), of format_type] assms(1) by simp
qed

theorem match_probabilities_normalised_witness:
  "(\<exists>mp' a b j k. ensure_match_prediction_consistency
      [(''prediction'', PDict [(''team_probabilities'',
          PDict [(''A'', PNum 1), (''B'', PNum 2)])])] ''T20I'' = Inr mp'
     \<and> map_of mp' ''prediction'' = Some (PDict
          [(''team_probabilities'', PDict [(''A'', PNum a), (''B'', PNum b)]),
           (''win_probability'', PNum (max a b))])
     \<and> a = of_int j / 1000 \<and> b = of_int k / 1000
     \<and> \<bar>a - 1 / 3\<bar> \<le> 1 / 2000 + (1 / 3) / 1000000000
     \<and> \<bar>b - 2 / 3\<bar> \<le> 1 / 2000 + (2 / 3) / 1000000000)
   \<and> (\<exists>mp'. ensure_match_prediction_consistency
      [(''prediction'', PDict [(''team_probabilities'',
          PDict [(''A'', PNum 0), (''B'', PNum 0)])])] ''T20I'' = Inr mp'
     \<and> map_of mp' ''prediction'' = Some (PDict
          [(''team_probabilities'', PDict [(''A'', PNum (1 / 2)), (''B'', PNum (1 / 2))]),
           (''win_probability'', PNum (1 / 2))]))
   \<and> (\<exists>mp'. ensure_match_prediction_consistency
      [(''prediction'', PDict [(''team_probabilities'',
          PDict [(''A'', PNum 1)])])] ''T20I'' = Inr mp'
     \<and> map_of mp' ''prediction'' = Some (PDict
          [(''team_probabilities'', PDict [(''A'', PNum 1)])]))
   \<and> ensure_match_prediction_consistency
        [(''prediction'', PDict [(''team_probabilities'',
            PDict [(''A'', PNum 3), (''B'', PNum 1)])])] ''T20I''
      = Inr [(''prediction'', PDict
          [(''team_probabilities'', PDict [(''A'', PNum (3 / 4)), (''B'', PNum (1 / 4))]),
           (''win_probability'', PNum (3 / 4))])]"
  using nested_probabilities_example match_probabilities_normalised
    [of "[(''prediction'', PDict [(''team_probabilities'',
          PDict [(''A'', PNum 1), (''B'', PNum 2)])])]"
        "[(''team_probabilities'', PDict [(''A'', PNum 1), (''B'', PNum 2)])]"
        "[(''A'', PNum 1), (''B'', PNum 2)]" "[]" "''A''" 1 "''B''" 2 "''T20I''"]
    match_probabilities_normalised
    [of "[(''prediction'', PDict [(''team_probabilities'',
          PDict [(''A'', PNum 0), (''B'', PNum 0)])])]"
        "[(''team_probabilities'', PDict [(''A'', PNum 0), (''B'', PNum 0)])]"
        "[(''A'', PNum 0), (''B'', PNum 0)]" "[]" "''A''" 0 "''B''" 0 "''T20I''"]
    match_probabilities_normalised
    [of "[(''prediction'', PDict [(''team_probabilities'',
          PDict [(''A'', PNum 1)])])]"
        "[(''team_probabilities'', PDict [(''A'', PNum 1)])]"
        "[(''A'', PNum 1)]" "[]" "''A''" 1 "''B''" 2 "''T20I''"]
  by (simp add: py_get_def numeric_values_def)





section \<open>Player role\<close>

lemma lower_char_code:
  "lower_char c =
     (if (65 \<le> (of_char c :: nat) \<and> (of_char c :: nat) \<le> 90)
         \<or> (192 \<le> (of_char c :: nat) \<and> (of_char c :: nat) \<le> 222
            \<and> (of_char c :: nat) \<noteq> 215)
      then char_of ((of_char c :: nat) + 32) else c)"
  by (simp add: lower_char_def Let_def)

lemma py_lower_PStr [simp]: "py_lower (PStr s) = Inr (map lower_char s)"
  by (simp add: py_lower_def)

lemma adjust_field_floor:
  assumes "numeric_field prediction sub field"
  shows "adjust_field prediction sub field (\<lambda>v. py_less v (PNum b)) (\<lambda>v. py_max v (PNum b))
    = Inr (spec_floor b sub field prediction)"
  using assms
  by (auto simp add: adjust_field_def numeric_field_def spec_floor_def spec_bound_def
      py_get_attr_def py_setitem_def max_def split: option.splits pyval.splits)

lemma adjust_field_cap:
  assumes "numeric_field prediction sub field"
  shows "adjust_field prediction sub field (\<lambda>v. py_greater v (PNum b)) (\<lambda>v. py_min v (PNum b))
    = Inr (spec_cap b sub field prediction)"
  using assms
  by (auto simp add: adjust_field_def numeric_field_def spec_cap_def spec_bound_def
      py_get_attr_def py_setitem_def min_def split: option.splits pyval.splits)

lemma spec_bound_other_sub:
  "sub \<noteq> sub' \<Longrightarrow> map_of (spec_bound f sub field prediction) sub' = map_of prediction sub'"
  by (auto simp add: spec_bound_def update_conv' split: option.splits pyval.splits)

lemma numeric_field_after_batting:
  "numeric_field (spec_floor b ''batting'' field prediction) ''bowling'' field'
     = numeric_field prediction ''bowling'' field'"
  "numeric_field (spec_cap b ''batting'' field prediction) ''bowling'' field'
     = numeric_field prediction ''bowling'' field'"
  by (simp_all add: numeric_field_def spec_floor_def spec_cap_def spec_bound_other_sub)

lemma ensure_role_spec:
  assumes "py_get player_data ''personalInformation'' (PDict []) = PDict info"
    and "py_get info ''role'' (PStr []) = PStr role"
    and "numeric_field prediction ''batting'' ''expected_runs''"
    and "numeric_field prediction ''bowling'' ''expected_wickets''"
  shows "ensure_player_role_consistency player_data prediction
    = Inr (spec_adjust_for_role role prediction)"
  using assms
  by (simp add: ensure_player_role_consistency_def spec_adjust_for_role_def spec_classify_def
      py_get_attr_def Let_def adjust_field_floor adjust_field_cap
      numeric_field_after_batting)

lemma lower_all_rounder_bowler:
  "map lower_char ''All-rounder (Bowler)'' = ''all-rounder (bowler)''"
  by (simp add: lower_char_code char_of_eq_iff)

lemma classify_all_rounder_bowler: "spec_classify ''All-rounder (Bowler)'' = Some Bowler"
  by (simp only: spec_classify_def lower_all_rounder_bowler Let_def) simp

text \<open>
  C7. For a player whose \<^verbatim>\<open>personalInformation.role\<close> is a string and a prediction whose
  sub-records, where present, hold numbers, \<^verbatim>\<open>ensure_player_role_consistency\<close> returns
  what the policy of the specification prescribes: the role is classified by
  case-insensitive substring match, batsman before bowler before all-rounder, and the
  floors and caps of the class are applied to the sub-records that are present; a role
  of no class leaves the prediction as it is.
\<close>

theorem role_policy_refines_spec:
  assumes "py_get player_data ''personalInformation'' (PDict []) = PDict info"
    and "py_get info ''role'' (PStr []) = PStr role"
    and "numeric_field prediction ''batting'' ''expected_runs''"
    and "numeric_field prediction ''bowling'' ''expected_wickets''"
  shows "ensure_player_role_consistency player_data prediction
    = Inr (spec_adjust_for_role role prediction)"
  using assms by (rule ensure_role_spec)

theorem role_policy_refines_spec_witness:
  "ensure_player_role_consistency
     [(''personalInformation'', PDict [(''role'', PStr ''All-rounder (Bowler)'')])]
     [(''batting'', PDict [(''expected_runs'', PNum 30)]), (''bowling'', PDict [])]
   = Inr [(''batting'', PDict [(''expected_runs'', PNum 15)]),
          (''bowling'', PDict [(''expected_wickets'', PNum 1)])]"
proof -
  have a: "spec_adjust_for_role ''All-rounder (Bowler)''
       [(''batting'', PDict [(''expected_runs'', PNum 30)]), (''bowling'', PDict [])]
     = [(''batting'', PDict [(''expected_runs'', PNum 15)]),
        (''bowling'', PDict [(''expected_wickets'', PNum 1)])]"
    by (simp add: spec_adjust_for_role_def classify_all_rounder_bowler spec_floor_def
        spec_cap_def spec_bound_def py_get_def)
  have "ensure_player_role_consistency
     [(''personalInformation'', PDict [(''role'', PStr ''All-rounder (Bowler)'')])]
     [(''batting'', PDict [(''expected_runs'', PNum 30)]), (''bowling'', PDict [])]
   = Inr (spec_adjust_for_role ''All-rounder (Bowler)''
       [(''batting'', PDict [(''expected_runs'', PNum 30)]), (''bowling'', PDict [])])"
    by (rule role_policy_refines_spec [of _ "[(''role'', PStr ''All-rounder (Bowler)'')]"])
      (simp_all add: py_get_def numeric_field_def)
  then show ?thesis unfolding a .
qed

section \<open>Where the inputs are read\<close>

lemma lower_batsman: "map lower_char ''Batsman'' = ''batsman''"
  by (simp add: lower_char_code char_of_eq_iff)

lemma classify_batsman: "spec_classify ''Batsman'' = Some Batsman"
  by (simp only: spec_classify_def lower_batsman Let_def) simp

lemma nested_batsman_example:
  "ensure_player_role_consistency
        [(''personalInformation'', PDict [(''role'', PStr ''Batsman'')])]
        [(''bowling'', PDict [(''expected_wickets'', PNum 2)])]
      = Inr [(''bowling'', PDict [(''expected_wickets'', PNum (1 / 2))])]"
proof -
  have a: "spec_adjust_for_role ''Batsman''
       [(''bowling'', PDict [(''expected_wickets'', PNum 2)])]
     = [(''bowling'', PDict [(''expected_wickets'', PNum (1 / 2))])]"
    by (simp add: spec_adjust_for_role_def classify_batsman spec_floor_def
        spec_cap_def spec_bound_def py_get_def)
  have "ensure_player_role_consistency
        [(''personalInformation'', PDict [(''role'', PStr ''Batsman'')])]
        [(''bowling'', PDict [(''expected_wickets'', PNum 2)])]
      = Inr (spec_adjust_for_role ''Batsman''
          [(''bowling'', PDict [(''expected_wickets'', PNum 2)])])"
    by (rule ensure_role_spec [of _ "[(''role'', PStr ''Batsman'')]"])
      (simp_all add: py_get_def numeric_field_def)
  then show ?thesis unfolding a .
qed

lemma role_without_personal_information:
  "map_of player_data ''personalInformation'' = None \<Longrightarrow>
     ensure_player_role_consistency player_data prediction = Inr prediction"
  by (simp add: ensure_player_role_consistency_def py_get_def py_get_attr_def)

lemma role_depends_on_personal_information:
  "map_of pd ''personalInformation'' = map_of pd' ''personalInformation'' \<Longrightarrow>
     ensure_player_role_consistency pd prediction = ensure_player_role_consistency pd' prediction"
  by (simp add: ensure_player_role_consistency_def py_get_def)

lemma match_without_prediction:
  "map_of mp ''prediction'' = None \<Longrightarrow> match_probabilities mp = Inr mp"
  by (simp add: match_probabilities_def py_get_def py_get_attr_def py_truthy_def)

lemma match_top_level_untouched:
  assumes "ensure_match_prediction_consistency mp format_type = Inr mp'"
    and "k \<noteq> ''prediction''" and "k \<noteq> ''expected_scores''"
  shows "map_of mp' k = map_of mp k"
proof -
  from assms(1) obtain mp1 where a: "match_probabilities mp = Inr mp1"
    and b: "match_scores mp1 format_type = Inr mp'"
    unfolding ensure_match_prediction_consistency_def by (auto simp add: bind_res_eq_Inr)
  show ?thesis
    using match_probabilities_other_keys [OF a assms(2)] match_scores_other_keys [OF b assms(3)]
    by simp
qed

lemma nested_probabilities_written:
  assumes "map_of mp ''prediction'' = Some (PDict pred)"
    and "map_of pred ''team_probabilities'' = Some (PDict [(t1, PNum p1), (t2, PNum p2)])"
    and "t1 \<noteq> t2"
    and "py_get mp ''expected_scores'' (PDict []) = PDict es"
    and "numeric_values es"
  shows "\<exists>mp' pred' a b. ensure_match_prediction_consistency mp format_type = Inr mp'
     \<and> map_of mp' ''prediction'' = Some (PDict pred')
     \<and> map_of pred' ''team_probabilities'' = Some (PDict [(t1, PNum a), (t2, PNum b)])
     \<and> map_of pred' ''win_probability'' = Some (PNum (max a b))"
proof -
  from match_two_entries [OF assms, of format_type] obtain mp' a b where
    "ensure_match_prediction_consistency mp format_type = Inr mp'"
    and p: "map_of mp' ''prediction'' = Some (PDict
         (AList.update ''win_probability'' (PNum (max a b))
         (AList.update ''team_probabilities'' (PDict [(t1, PNum a), (t2, PNum b)]) pred)))"
    by blast
  moreover have "map_of (AList.update ''win_probability'' (PNum (max a b))
         (AList.update ''team_probabilities'' (PDict [(t1, PNum a), (t2, PNum b)]) pred))
         ''team_probabilities'' = Some (PDict [(t1, PNum a), (t2, PNum b)])"
    and "map_of (AList.update ''win_probability'' (PNum (max a b))
         (AList.update ''team_probabilities'' (PDict [(t1, PNum a), (t2, PNum b)]) pred))
         ''win_probability'' = Some (PNum (max a b))"
    by (simp_all add: update_conv')
  ultimately show ?thesis by blast
qed

text \<open>
  C4 (as amended). \<^verbatim>\<open>ensure_player_role_consistency\<close> reads the role under
  \<^verbatim>\<open>player_data['personalInformation']['role']\<close>: two player records with the same
  \<^verbatim>\<open>personalInformation\<close> entry give the same result, and without that entry the
  prediction is returned as it is, whatever a top-level \<^verbatim>\<open>role\<close> holds.
  \<^verbatim>\<open>ensure_match_prediction_consistency\<close> reads the probabilities under
  \<^verbatim>\<open>match_prediction['prediction']\<close>: two probabilities found under
  \<^verbatim>\<open>match_prediction['prediction']['team_probabilities']\<close> (of magnitude at most
  \<^verbatim>\<open>10 ** 15\<close>, their total not in the open interval from 0 to \<^verbatim>\<open>10 ** -290\<close>) are
  replaced there, and the larger of the two stored values is written under
  \<^verbatim>\<open>match_prediction['prediction']['win_probability']\<close>; top-level
  \<^verbatim>\<open>team_probabilities\<close> and \<^verbatim>\<open>win_probability\<close> entries are returned untouched, and
  without a \<^verbatim>\<open>prediction\<close> entry nothing is normalised. A player
  \<^verbatim>\<open>{personalInformation: {role: Batsman}}\<close> with \<^verbatim>\<open>bowling.expected_wickets = 2\<close> comes
  back with \<^verbatim>\<open>expected_wickets = 0.5\<close>, and a match prediction
  \<^verbatim>\<open>{prediction: {team_probabilities: {A: 3, B: 1}}}\<close> with 0.75 and 0.25 and
  \<^verbatim>\<open>win_probability = 0.75\<close> under \<^verbatim>\<open>prediction\<close>.
\<close>

theorem inputs_read_at_nested_positions:
  "(map_of pd ''personalInformation'' = map_of pd' ''personalInformation'' \<longrightarrow>
      ensure_player_role_consistency pd prediction
        = ensure_player_role_consistency pd' prediction)
   \<and> (map_of pd ''personalInformation'' = None \<longrightarrow>
      ensure_player_role_consistency pd prediction = Inr prediction)
   \<and> (ensure_match_prediction_consistency mp format_type = Inr mp' \<longrightarrow>
      map_of mp' ''team_probabilities'' = map_of mp ''team_probabilities''
      \<and> map_of mp' ''win_probability'' = map_of mp ''win_probability'')
   \<and> (map_of mp ''prediction'' = None \<longrightarrow> match_probabilities mp = Inr mp)
   \<and> (map_of mp ''prediction'' = Some (PDict pred)
      \<and> map_of pred ''team_probabilities'' = Some (PDict [(t1, PNum p1), (t2, PNum p2)])
      \<and> t1 \<noteq> t2 \<and> \<bar>p1\<bar> \<le> 10 ^ 15 \<and> \<bar>p2\<bar> \<le> 10 ^ 15
      \<and> (p1 + p2 \<le> 0 \<or> 1 / 10 ^ 290 \<le> p1 + p2)
      \<and> py_get mp ''expected_scores'' (PDict []) = PDict es \<and> numeric_values es \<longrightarrow>
      (\<exists>mp1 pred1 a b. ensure_match_prediction_consistency mp format_type = Inr mp1
         \<and> map_of mp1 ''prediction'' = Some (PDict pred1)
         \<and> map_of pred1 ''team_probabilities'' = Some (PDict [(t1, PNum a), (t2, PNum b)])
         \<and> map_of pred1 ''win_probability'' = Some (PNum (max a b))))
   \<and> ensure_player_role_consistency
        [(''personalInformation'', PDict [(''role'', PStr ''Batsman'')])]
        [(''bowling'', PDict [(''expected_wickets'', PNum 2)])]
      = Inr [(''bowling'', PDict [(''expected_wickets'', PNum (1 / 2))])]
   \<and> ensure_match_prediction_consistency
        [(''prediction'', PDict [(''team_probabilities'',
            PDict [(''A'', PNum 3), (''B'', PNum 1)])])] ''T20I''
      = Inr [(''prediction'', PDict
          [(''team_probabilities'', PDict [(''A'', PNum (3 / 4)), (''B'', PNum (1 / 4))]),
           (''win_probability'', PNum (3 / 4))])]"
proof (intro conjI impI)
  assume "map_of pd ''personalInformation'' = map_of pd' ''personalInformation''"
  then show "ensure_player_role_consistency pd prediction
      = ensure_player_role_consistency pd' prediction"
    by (rule role_depends_on_personal_information)
next
  assume "map_of pd ''personalInformation'' = None"
  then show "ensure_player_role_consistency pd prediction = Inr prediction"
    by (rule role_without_personal_information)
next
  assume a: "ensure_match_prediction_consistency mp format_type = Inr mp'"
  show "map_of mp' ''team_probabilities'' = map_of mp ''team_probabilities''"
    by (rule match_top_level_untouched [OF a]) simp_all
  show "map_of mp' ''win_probability'' = map_of mp ''win_probability''"
    by (rule match_top_level_untouched [OF a]) simp_all
next
  assume "map_of mp ''prediction'' = None"
  then show "match_probabilities mp = Inr mp"
    by (rule match_without_prediction)
next
  assume a: "map_of mp ''prediction'' = Some (PDict pred)
      \<and> map_of pred ''team_probabilities'' = Some (PDict [(t1, PNum p1), (t2, PNum p2)])
      \<and> t1 \<noteq> t2 \<and> \<bar>p1\<bar> \<le> 10 ^ 15 \<and> \<bar>p2\<bar> \<le> 10 ^ 15
      \<and> (p1 + p2 \<le> 0 \<or> 1 / 10 ^ 290 \<le> p1 + p2)
      \<and> py_get mp ''expected_scores'' (PDict []) = PDict es \<and> numeric_values es"
  then have h: "map_of mp ''prediction'' = Some (PDict pred)"
    "map_of pred ''team_probabilities'' = Some (PDict [(t1, PNum p1), (t2, PNum p2)])"
    "t1 \<noteq> t2" "py_get mp ''expected_scores'' (PDict []) = PDict es" "numeric_values es"
    by simp_all
  show "\<exists>mp1 pred1 a b. ensure_match_prediction_consistency mp format_type = Inr mp1
         \<and> map_of mp1 ''prediction'' = Some (PDict pred1)
         \<and> map_of pred1 ''team_probabilities'' = Some (PDict [(t1, PNum a), (t2, PNum b)])
         \<and> map_of pred1 ''win_probability'' = Some (PNum (max a b))"
    by (rule nested_probabilities_written [OF h])
next
  show "ensure_player_role_consistency
        [(''personalInformation'', PDict [(''role'', PStr ''Batsman'')])]
        [(''bowling'', PDict [(''expected_wickets'', PNum 2)])]
      = Inr [(''bowling'', PDict [(''expected_wickets'', PNum (1 / 2))])]"
    by (rule nested_batsman_example)
next
  show "ensure_match_prediction_consistency
        [(''prediction'', PDict [(''team_probabilities'',
            PDict [(''A'', PNum 3), (''B'', PNum 1)])])] ''T20I''
      = Inr [(''prediction'', PDict
          [(''team_probabilities'', PDict [(''A'', PNum (3 / 4)), (''B'', PNum (1 / 4))]),
           (''win_probability'', PNum (3 / 4))])]"
    by (rule nested_probabilities_example)
qed

theorem inputs_read_at_nested_positions_witness:
  "ensure_player_role_consistency [(''role'', PStr ''Batsman'')]
     [(''bowling'', PDict [(''expected_wickets'', PNum 2)])]
   = Inr [(''bowling'', PDict [(''expected_wickets'', PNum 2)])]
   \<and> ensure_match_prediction_consistency
       [(''team_probabilities'', PDict [(''A'', PNum 3), (''B'', PNum 1)])] ''T20I''
     = Inr [(''team_probabilities'', PDict [(''A'', PNum 3), (''B'', PNum 1)])]
   \<and> map_of [(''team_probabilities'', PDict [(''A'', PNum 3), (''B'', PNum 1)])]
        ''win_probability'' = None
   \<and> (\<exists>mp1 pred1 a b. ensure_match_prediction_consistency
         [(''prediction'', PDict [(''team_probabilities'',
            PDict [(''A'', PNum 1), (''B'', PNum 2)])])] ''ODI'' = Inr mp1
         \<and> map_of mp1 ''prediction'' = Some (PDict pred1)
         \<and> map_of pred1 ''team_probabilities''
              = Some (PDict [(''A'', PNum a), (''B'', PNum b)])
         \<and> map_of pred1 ''win_probability'' = Some (PNum (max a b)))"
proof -
  have b: "ensure_match_prediction_consistency
       [(''team_probabilities'', PDict [(''A'', PNum 3), (''B'', PNum 1)])] ''T20I''
     = Inr [(''team_probabilities'', PDict [(''A'', PNum 3), (''B'', PNum 1)])]"
    by (simp add: ensure_match_prediction_consistency_def match_probabilities_def
        match_scores_def py_get_attr_def py_get_def py_truthy_def Let_def)
  from inputs_read_at_nested_positions
    [of "[(''role'', PStr ''Batsman'')]" "[(''role'', PStr ''Batsman'')]"
        "[(''bowling'', PDict [(''expected_wickets'', PNum 2)])]"
        "[(''team_probabilities'', PDict [(''A'', PNum 3), (''B'', PNum 1)])]" "''T20I''"
        "[(''team_probabilities'', PDict [(''A'', PNum 3), (''B'', PNum 1)])]"]
    b
  have one: "ensure_player_role_consistency [(''role'', PStr ''Batsman'')]
     [(''bowling'', PDict [(''expected_wickets'', PNum 2)])]
   = Inr [(''bowling'', PDict [(''expected_wickets'', PNum 2)])]
   \<and> ensure_match_prediction_consistency
       [(''team_probabilities'', PDict [(''A'', PNum 3), (''B'', PNum 1)])] ''T20I''
     = Inr [(''team_probabilities'', PDict [(''A'', PNum 3), (''B'', PNum 1)])]
   \<and> map_of [(''team_probabilities'', PDict [(''A'', PNum 3), (''B'', PNum 1)])]
        ''win_probability'' = None"
    by simp
  from inputs_read_at_nested_positions
    [of "[]" "[]" "[]"
        "[(''prediction'', PDict [(''team_probabilities'',
            PDict [(''A'', PNum 1), (''B'', PNum 2)])])]" "''ODI''" "[]"
        "[(''team_probabilities'', PDict [(''A'', PNum 1), (''B'', PNum 2)])]"
        "''A''" 1 "''B''" 2 "[]"]
  have two: "\<exists>mp1 pred1 a b. ensure_match_prediction_consistency
         [(''prediction'', PDict [(''team_probabilities'',
            PDict [(''A'', PNum 1), (''B'', PNum 2)])])] ''ODI'' = Inr mp1
         \<and> map_of mp1 ''prediction'' = Some (PDict pred1)
         \<and> map_of pred1 ''team_probabilities''
              = Some (PDict [(''A'', PNum a), (''B'', PNum b)])
         \<and> map_of pred1 ''win_probability'' = Some (PNum (max a b))"
    by (simp add: py_get_def numeric_values_def)
  from one two show ?thesis by simp
qed

theorem top_level_role_counterexample:
  "ensure_player_role_consistency [(''role'', PStr ''Batsman'')]
     [(''bowling'', PDict [(''expected_wickets'', PNum 2)])]
   = Inr [(''bowling'', PDict [(''expected_wickets'', PNum 2)])]
   \<and> \<not> ((2 :: rat) \<le> 1 / 2)
   \<and> ensure_match_prediction_consistency
       [(''team_probabilities'', PDict [(''A'', PNum 3), (''B'', PNum 1)])] ''T20I''
     = Inr [(''team_probabilities'', PDict [(''A'', PNum 3), (''B'', PNum 1)])]"
  by (simp add: ensure_player_role_consistency_def py_get_def py_get_attr_def
      ensure_match_prediction_consistency_def match_probabilities_def
      match_scores_def py_truthy_def Let_def)


section \<open>Returning on well-typed input\<close>




















end
